theory Spec2Isabelle
  imports Main "HOL-Library.Multiset"
begin

section \<open>Seat aggregation (copilot-seat-service)\<close>

text \<open>
  The records follow the fields the service reads and writes. JavaScript values that may
  be \<^verbatim>\<open>null\<close> or \<^verbatim>\<open>undefined\<close> are options (\<open>None\<close>). The fields of a
  seat that the service never reads are kept together in \<open>seat_rest\<close>.
\<close>

record GitHubTeam =
  team_id :: "nat option"
  name :: "string option"

record SeatAssignment =
  assignee_login :: string
  assigning_team :: "GitHubTeam option"
  last_activity_at :: "string option"
  seat_rest :: string

record CopilotSeatsData =
  enterprise :: "string option"
  organization :: "string option"
  seats :: "SeatAssignment list"
  total_seats :: nat
  total_active_seats :: "nat option"
  page :: "nat option"
  has_next_page :: "bool option"
  last_update :: "string option"
  date :: "string option"
  doc_id :: "string option"

text \<open>
  The seat \<^verbatim>\<open>filter\<close> callback that is written out four times in the service:
  \<^verbatim>\<open>if (!seat.last_activity_at) return false;
  const lastActivityDate = new Date(seat.last_activity_at);
  return lastActivityDate >= thirtyDaysAgo;\<close>
  \<open>parseDate\<close> is the time value of \<^verbatim>\<open>new Date(s)\<close>, \<open>None\<close> for an invalid date
  (its time value is NaN, and every comparison with NaN is false). \<open>thirtyDaysAgo\<close> is the
  time value of the clock reading moved back thirty days.
\<close>

definition isActiveSeat :: "(string \<Rightarrow> int option) \<Rightarrow> int \<Rightarrow> SeatAssignment \<Rightarrow> bool" where
  "isActiveSeat parseDate thirtyDaysAgo seat =
     (case last_activity_at seat of
        None \<Rightarrow> False
      | Some s \<Rightarrow>
          if s = [] then False
          else (case parseDate s of None \<Rightarrow> False | Some lastActivityDate \<Rightarrow> thirtyDaysAgo \<le> lastActivityDate))"

text \<open>
  \<^verbatim>\<open>seat.assigning_team?.name && teamFilter.includes(seat.assigning_team.name)\<close>:
  a missing team, a missing name and the empty name are all falsy.
\<close>

definition inTeamFilter :: "string list \<Rightarrow> SeatAssignment \<Rightarrow> bool" where
  "inTeamFilter teamFilter seat =
     (case assigning_team seat of
        None \<Rightarrow> False
      | Some t \<Rightarrow> (case name t of None \<Rightarrow> False | Some n \<Rightarrow> n \<noteq> [] \<and> n \<in> set teamFilter))"

text \<open>
  \<^verbatim>\<open>let filteredSeats = xs; if (teamFilter && teamFilter.length > 0) filteredSeats = xs.filter(...)\<close>
\<close>

definition applyTeamFilter :: "string list option \<Rightarrow> SeatAssignment list \<Rightarrow> SeatAssignment list" where
  "applyTeamFilter teamFilter xs =
     (case teamFilter of
        None \<Rightarrow> xs
      | Some tf \<Rightarrow> if length tf > 0 then filter (inTeamFilter tf) xs else xs)"

text \<open>
  The \<^verbatim>\<open>Map<string, SeatAssignment>\<close> is an association list in insertion order, which
  is the order \<^verbatim>\<open>uniqueSeatsMap.values()\<close> iterates in.
\<close>

definition map_has :: "(string \<times> SeatAssignment) list \<Rightarrow> string \<Rightarrow> bool" where
  "map_has m k = (k \<in> set (map fst m))"

definition uniqueSeatsMap_step ::
  "(string \<times> SeatAssignment) list \<Rightarrow> SeatAssignment \<Rightarrow> (string \<times> SeatAssignment) list" where
  "uniqueSeatsMap_step m seat =
     (if \<not> map_has m (assignee_login seat) then m @ [(assignee_login seat, seat)] else m)"

definition uniqueSeats :: "SeatAssignment list \<Rightarrow> SeatAssignment list" where
  "uniqueSeats filteredSeats = map snd (foldl uniqueSeatsMap_step [] filteredSeats)"

text \<open>
  The backwards-compatibility step assigns \<^verbatim>\<open>data[0].total_active_seats\<close> when the
  document has none. It reads the clock on its own (\<open>thirtyDaysAgo0\<close>).
\<close>

definition fillActiveSeats :: "(string \<Rightarrow> int option) \<Rightarrow> int \<Rightarrow> CopilotSeatsData \<Rightarrow> CopilotSeatsData" where
  "fillActiveSeats parseDate thirtyDaysAgo0 d =
     (if total_active_seats d = None
      then d\<lparr>total_active_seats := Some (length (filter (isActiveSeat parseDate thirtyDaysAgo0) (seats d)))\<rparr>
      else d)"

definition emptySeatsData :: CopilotSeatsData where
  "emptySeatsData =
     \<lparr>enterprise = None, organization = None, seats = [], total_seats = 0,
      total_active_seats = Some 0, page = None, has_next_page = None, last_update = None,
      date = None, doc_id = None\<rparr>"

fun aggregateSeatsData ::
  "(string \<Rightarrow> int option) \<Rightarrow> int \<Rightarrow> int \<Rightarrow> CopilotSeatsData list \<Rightarrow> string list option \<Rightarrow> CopilotSeatsData" where
  "aggregateSeatsData parseDate thirtyDaysAgo0 thirtyDaysAgo [] teamFilter = emptySeatsData"
| "aggregateSeatsData parseDate thirtyDaysAgo0 thirtyDaysAgo [d] teamFilter =
     (let data0 = fillActiveSeats parseDate thirtyDaysAgo0 d;
          filteredSeats = applyTeamFilter teamFilter (seats data0);
          activeSeatsCount = length (filter (isActiveSeat parseDate thirtyDaysAgo) filteredSeats)
      in data0\<lparr>total_seats := length filteredSeats,
               total_active_seats := Some activeSeatsCount,
               seats := filteredSeats\<rparr>)"
| "aggregateSeatsData parseDate thirtyDaysAgo0 thirtyDaysAgo (d # ds) teamFilter =
     (let data0 = fillActiveSeats parseDate thirtyDaysAgo0 d;
          allSeats = concat (map seats (data0 # ds));
          filteredSeats = applyTeamFilter teamFilter allSeats;
          seats' = uniqueSeats filteredSeats;
          activeSeatsCount = length (filter (isActiveSeat parseDate thirtyDaysAgo) seats')
      in \<lparr>enterprise = enterprise data0,
          organization = organization data0,
          seats = seats',
          total_seats = length seats',
          total_active_seats = Some activeSeatsCount,
          page = page data0,
          has_next_page = Some False,
          last_update = last_update data0,
          date = date data0,
          doc_id = doc_id data0\<rparr>)"

text \<open>
  The order of steps as the specification words it, for comparison with the source's:
  flatten, deduplicate by login (first occurrence wins), then filter by team, then count.
\<close>

fun firstByLogin :: "SeatAssignment list \<Rightarrow> SeatAssignment list" where
  "firstByLogin [] = []"
| "firstByLogin (s # ss) = s # firstByLogin (filter (\<lambda>t. assignee_login t \<noteq> assignee_login s) ss)"

definition seats_dedup_then_filter :: "CopilotSeatsData list \<Rightarrow> string list \<Rightarrow> SeatAssignment list" where
  "seats_dedup_then_filter data tf =
     filter (inTeamFilter tf) (firstByLogin (concat (map seats data)))"

definition seats_filter_then_dedup :: "CopilotSeatsData list \<Rightarrow> string list \<Rightarrow> SeatAssignment list" where
  "seats_filter_then_dedup data tf =
     firstByLogin (filter (inTeamFilter tf) (concat (map seats data)))"

section \<open>Metrics for a list of teams (copilot-metrics-service)\<close>

record Breakdown =
  language :: string
  editor :: string
  breakdown_rest :: string

record CopilotUsageOutput =
  day :: string
  breakdown :: "Breakdown list"
  time_frame_week :: string
  time_frame_month :: string
  time_frame_display :: string
  usage_rest :: string

text \<open>
  \<^verbatim>\<open>ServerActionResponse<T>\<close> is declared outside the files at hand; the services use it
  as \<^verbatim>\<open>{status: "OK", response}\<close> or as a status other than \<^verbatim>\<open>"OK"\<close> together with
  \<^verbatim>\<open>errors: [{message}]\<close>. \<open>Failure\<close> carries the status text and the messages.
\<close>

datatype 'a ServerActionResponse = OK 'a | Failure string "string list"

fun isOK :: "'a ServerActionResponse \<Rightarrow> bool" where
  "isOK (OK r) = True"
| "isOK (Failure st errs) = False"

record GitHubConfig =
  token :: string
  version :: string

record MetricsFilter =
  startDate :: "int option"
  endDate :: "int option"
  mf_enterprise :: string
  mf_organization :: string
  team :: "string list option"

text \<open>
  What \<^verbatim>\<open>await fetch(url, ...)\<close> gives: a rejected promise (\<open>FetchRejected\<close>), or a
  response with its \<^verbatim>\<open>ok\<close> flag, its status code and the outcome of
  \<^verbatim>\<open>await response.json()\<close>, which throws (\<open>Inl\<close>) on a body that is not JSON.
\<close>

datatype 'j fetch_result = FetchRejected string | FetchResolved bool nat "string + 'j"

text \<open>
  The collaborators of the service that are not in the files at hand are parameters:
  the HTTP transport \<open>fetch\<close> (url, token, version), which also tells when the request
  settles (a logical time, smaller is earlier); \<open>ensureGitHubEnvConfig\<close>;
  \<open>formatResponseError\<close> and \<open>unknownResponseError\<close>, which build a response whose status is
  not \<^verbatim>\<open>"OK"\<close> (status text and messages); \<open>applyTimeFrameLabel\<close>; \<open>formatYmd\<close>, which is
  \<^verbatim>\<open>format(d, "yyyy-MM-dd")\<close>; and \<open>dayTime\<close>, the time value \<^verbatim>\<open>new Date(day).getTime()\<close>
  of the day of a labelled record (days are the calendar dates of the API, so the
  time value is a number).
\<close>

record 'j metrics_env =
  fetch :: "string \<Rightarrow> string \<Rightarrow> string \<Rightarrow> nat \<times> 'j fetch_result"
  ensureGitHubEnvConfig :: "GitHubConfig ServerActionResponse"
  formatResponseError :: "string \<Rightarrow> nat \<Rightarrow> string \<times> string list"
  unknownResponseError :: "string \<Rightarrow> string \<times> string list"
  applyTimeFrameLabel :: "'j \<Rightarrow> CopilotUsageOutput list"
  formatYmd :: "int \<Rightarrow> string"
  dayTime :: "string \<Rightarrow> int"

text \<open>
  An \<^verbatim>\<open>async\<close> function settles at some time with a thrown error (\<open>Inl\<close>) or with its
  return value (\<open>Inr\<close>).
\<close>

type_synonym 'a settled = "nat \<times> (string + 'a)"

definition fetchCopilotMetrics ::
  "'j metrics_env \<Rightarrow> string \<Rightarrow> string \<Rightarrow> string \<Rightarrow> string \<Rightarrow> CopilotUsageOutput list ServerActionResponse settled" where
  "fetchCopilotMetrics E url tok ver entityName =
     (case fetch E url tok ver of
        (t, FetchRejected e) \<Rightarrow> (t, Inl e)
      | (t, FetchResolved ok code body) \<Rightarrow>
          if \<not> ok then
            (t, Inr (case formatResponseError E entityName code of (st, errs) \<Rightarrow> Failure st errs))
          else (case body of
                  Inl e \<Rightarrow> (t, Inl e)
                | Inr data \<Rightarrow> (t, Inr (OK (applyTimeFrameLabel E data)))))"

text \<open>
  \<^verbatim>\<open>Promise.all\<close>: rejected with the reason of the promise that rejects first in time
  (the earlier one in the array among those that reject together), else fulfilled with
  all the values in the order of the array.
\<close>

fun isRejected :: "'a settled \<Rightarrow> bool" where
  "isRejected (t, Inl e) = True"
| "isRejected (t, Inr v) = False"

fun settledValues :: "'a settled list \<Rightarrow> 'a list" where
  "settledValues [] = []"
| "settledValues ((t, Inl e) # ps) = settledValues ps"
| "settledValues ((t, Inr v) # ps) = v # settledValues ps"

fun rejectionReason :: "'a settled \<Rightarrow> string" where
  "rejectionReason (t, Inl e) = e"
| "rejectionReason (t, Inr v) = []"

definition promise_all :: "'a settled list \<Rightarrow> string + 'a list" where
  "promise_all ps =
     (case filter isRejected ps of
        [] \<Rightarrow> Inr (settledValues ps)
      | r # rs \<Rightarrow> Inl (rejectionReason (arg_min_list fst (r # rs))))"

text \<open>
  \<^verbatim>\<open>URLSearchParams\<close> with \<^verbatim>\<open>since\<close> and \<^verbatim>\<open>until\<close>; its \<^verbatim>\<open>toString()\<close> joins
  \<^verbatim>\<open>key=value\<close> with \<^verbatim>\<open>&\<close> (a \<^verbatim>\<open>yyyy-MM-dd\<close> value has no character to escape).
\<close>

fun joinParams :: "(string \<times> string) list \<Rightarrow> string" where
  "joinParams [] = []"
| "joinParams [(k, v)] = k @ ''='' @ v"
| "joinParams ((k, v) # ps) = k @ ''='' @ v @ ''&'' @ joinParams ps"

definition queryString :: "'j metrics_env \<Rightarrow> MetricsFilter \<Rightarrow> string" where
  "queryString E f =
     (let queryParams =
            (case startDate f of None \<Rightarrow> [] | Some d \<Rightarrow> [(''since'', formatYmd E d)]) @
            (case endDate f of None \<Rightarrow> [] | Some d \<Rightarrow> [(''until'', formatYmd E d)])
      in if joinParams queryParams \<noteq> [] then ''?'' @ joinParams queryParams else [])"

definition teamMetricsPromise ::
  "'j metrics_env \<Rightarrow> GitHubConfig \<Rightarrow> MetricsFilter \<Rightarrow> string \<Rightarrow> CopilotUsageOutput list ServerActionResponse settled" where
  "teamMetricsPromise E cfg f teamSlug =
     (if mf_enterprise f \<noteq> [] then
        fetchCopilotMetrics E
          (''https://api.github.com/enterprises/'' @ mf_enterprise f @ ''/team/'' @ teamSlug @
             ''/copilot/metrics'' @ queryString E f)
          (token cfg) (version cfg)
          (mf_enterprise f @ ''/team/'' @ teamSlug)
      else
        fetchCopilotMetrics E
          (''https://api.github.com/orgs/'' @ mf_organization f @ ''/team/'' @ teamSlug @
             ''/copilot/metrics'' @ queryString E f)
          (token cfg) (version cfg)
          (mf_organization f @ ''/team/'' @ teamSlug))"

fun responseRecords :: "CopilotUsageOutput list ServerActionResponse \<Rightarrow> CopilotUsageOutput list" where
  "responseRecords (OK r) = r"
| "responseRecords (Failure st errs) = []"

definition getCopilotTeamsMetricsFromApi ::
  "'j metrics_env \<Rightarrow> MetricsFilter \<Rightarrow> CopilotUsageOutput list ServerActionResponse" where
  "getCopilotTeamsMetricsFromApi E f =
     (case ensureGitHubEnvConfig E of
        Failure st errs \<Rightarrow> Failure st errs
      | OK cfg \<Rightarrow>
          (case team f of
             None \<Rightarrow> OK []
           | Some ts \<Rightarrow>
               if length ts = 0 then OK []
               else
                 (case promise_all (map (teamMetricsPromise E cfg f) ts) of
                    Inl e \<Rightarrow> (case unknownResponseError E e of (st, errs) \<Rightarrow> Failure st errs)
                  | Inr teamMetricsResults \<Rightarrow>
                      (case filter (\<lambda>result. \<not> isOK result) teamMetricsResults of
                         failed # others \<Rightarrow> failed
                       | [] \<Rightarrow>
                           OK (sort_key (\<lambda>a. dayTime E (day a))
                                 (concat (map responseRecords teamMetricsResults)))))))"

text \<open>A request that settles with a response whose status is \<^verbatim>\<open>"OK"\<close>.\<close>

fun fulfilledOK :: "'a ServerActionResponse settled \<Rightarrow> bool" where
  "fulfilledOK (t, Inr (OK r)) = True"
| "fulfilledOK (t, Inr (Failure st errs)) = False"
| "fulfilledOK (t, Inl e) = False"

section \<open>Dashboard filter state (dashboard-state)\<close>

record DropdownFilterItem =
  item_value :: string
  isSelected :: bool

datatype TimeFrame = daily | weekly | monthly

text \<open>
  The seats summary held by the state is a \<^verbatim>\<open>CopilotSeatsData\<close> or the empty object
  \<^verbatim>\<open>{} as CopilotSeatsData\<close>, which the state starts with and which the seat service
  answers with when it has no data.
\<close>

datatype seats_payload = EmptyObject | SeatsData CopilotSeatsData

record CurrentFilter =
  cf_startDate :: "int option"
  cf_endDate :: "int option"
  cf_enterprise :: "string option"
  cf_organization :: "string option"

text \<open>
  The state is parametrised by what its two arrays of usage records hold: the records
  themselves (\<open>'u = CopilotUsageOutput\<close>, the value view used for most properties), or
  references into a store of objects (\<open>'u = nat\<close>, used where in-place mutation matters).
\<close>

record 'u DashboardState =
  filteredData :: "'u list"
  languages :: "DropdownFilterItem list"
  editors :: "DropdownFilterItem list"
  teams :: "DropdownFilterItem list"
  timeFrame :: TimeFrame
  hideWeekends :: bool
  isLoading :: bool
  seatsData :: seats_payload
  teamsData :: "GitHubTeam option list"
  apiData :: "'u list"
  hasPendingTeamChanges :: bool
  currentFilter :: CurrentFilter

type_synonym dstate = "CopilotUsageOutput DashboardState"

definition initialState :: "'u DashboardState" where
  "initialState =
     \<lparr>filteredData = [], languages = [], editors = [], teams = [], timeFrame = weekly,
      hideWeekends = False, isLoading = False, seatsData = EmptyObject, teamsData = [],
      apiData = [], hasPendingTeamChanges = False,
      currentFilter = \<lparr>cf_startDate = None, cf_endDate = None, cf_enterprise = None,
                        cf_organization = None\<rparr>\<rparr>"

text \<open>
  The helpers imported from outside the files at hand are parameters: \<open>getDay\<close> is
  \<^verbatim>\<open>new Date(day).getDay()\<close> (0 is Sunday, 6 is Saturday; any other number stands for the
  NaN of an invalid date), \<open>formatDate\<close> and \<open>groupByTimeFrame\<close> are the imported functions
  of these names, and \<open>collationRank\<close> is the position of a string in the order of
  \<^verbatim>\<open>localeCompare\<close>. The object handed to \<open>groupByTimeFrame\<close> is the association list of
  its keys in insertion order, each with its array.
\<close>

record dashboard_env =
  getDay :: "string \<Rightarrow> nat"
  formatDate :: "string \<Rightarrow> string"
  groupByTimeFrame :: "(string \<times> CopilotUsageOutput list) list \<Rightarrow> CopilotUsageOutput list"
  collationRank :: "string \<Rightarrow> nat"

text \<open>
  \<^verbatim>\<open>if (!acc[label]) acc[label] = []; acc[label].push(item)\<close>
\<close>

fun pushGrouped :: "(string \<times> 'a list) list \<Rightarrow> string \<Rightarrow> 'a \<Rightarrow> (string \<times> 'a list) list" where
  "pushGrouped [] k v = [(k, [v])]"
| "pushGrouped ((k', vs) # acc) k v =
     (if k' = k then (k', vs @ [v]) # acc else (k', vs) # pushGrouped acc k v)"

definition timeFrameLabel :: "TimeFrame \<Rightarrow> CopilotUsageOutput \<Rightarrow> string" where
  "timeFrameLabel tf item = (if tf = weekly then time_frame_week item else time_frame_month item)"

definition notWeekend :: "dashboard_env \<Rightarrow> CopilotUsageOutput \<Rightarrow> bool" where
  "notWeekend E item = (let d = getDay E (day item) in d \<noteq> 0 \<and> d \<noteq> 6)"

definition setDisplay :: "dashboard_env \<Rightarrow> CopilotUsageOutput \<Rightarrow> CopilotUsageOutput" where
  "setDisplay E item = item\<lparr>time_frame_display := formatDate E (day item)\<rparr>"

definition groupItems :: "TimeFrame \<Rightarrow> CopilotUsageOutput list \<Rightarrow> (string \<times> CopilotUsageOutput list) list" where
  "groupItems tf items = foldl (\<lambda>acc item. pushGrouped acc (timeFrameLabel tf item) item) [] items"

text \<open>
  In the value view the round trip \<^verbatim>\<open>JSON.parse(JSON.stringify(this.apiData))\<close> gives
  the records of \<open>apiData\<close> again.
\<close>

definition aggregatedDataByTimeFrame :: "dashboard_env \<Rightarrow> dstate \<Rightarrow> bool \<Rightarrow> CopilotUsageOutput list" where
  "aggregatedDataByTimeFrame E st hide =
     (let items0 = apiData st;
          items = (if hide then filter (notWeekend E) items0 else items0)
      in if timeFrame st = daily then map (setDisplay E) items
         else groupByTimeFrame E (groupItems (timeFrame st) items))"

definition keepLanguages :: "DropdownFilterItem list \<Rightarrow> CopilotUsageOutput \<Rightarrow> CopilotUsageOutput" where
  "keepLanguages selectedLanguages item =
     item\<lparr>breakdown :=
            filter (\<lambda>b. list_ex (\<lambda>selectedLanguage. item_value selectedLanguage = language b) selectedLanguages)
              (breakdown item)\<rparr>"

definition keepEditors :: "DropdownFilterItem list \<Rightarrow> CopilotUsageOutput \<Rightarrow> CopilotUsageOutput" where
  "keepEditors selectedEditors item =
     item\<lparr>breakdown :=
            filter (\<lambda>b. list_ex (\<lambda>e. item_value e = editor b) selectedEditors) (breakdown item)\<rparr>"

definition hasBreakdown :: "CopilotUsageOutput \<Rightarrow> bool" where
  "hasBreakdown item = (length (breakdown item) > 0)"

definition applyFilters :: "dashboard_env \<Rightarrow> dstate \<Rightarrow> dstate" where
  "applyFilters E st =
     (let data = aggregatedDataByTimeFrame E st (hideWeekends st);
          selectedLanguages = filter isSelected (languages st);
          selectedEditors = filter isSelected (editors st);
          data1 = (if length selectedLanguages \<noteq> 0 then map (keepLanguages selectedLanguages) data else data);
          data2 = (if length selectedEditors \<noteq> 0 then map (keepEditors selectedEditors) data1 else data1)
      in st\<lparr>filteredData := filter hasBreakdown data2\<rparr>)"

text \<open>
  \<^verbatim>\<open>if (items.findIndex(i => i.value === v) === -1) items.push({value: v, isSelected: false})\<close>
\<close>

definition pushUnique :: "DropdownFilterItem list \<Rightarrow> string \<Rightarrow> DropdownFilterItem list" where
  "pushUnique items v =
     (if find (\<lambda>i. item_value i = v) items = None
      then items @ [\<lparr>item_value = v, isSelected = False\<rparr>] else items)"

definition sortItems :: "dashboard_env \<Rightarrow> DropdownFilterItem list \<Rightarrow> DropdownFilterItem list" where
  "sortItems E items = sort_key (\<lambda>i. collationRank E (item_value i)) items"

definition extractUniqueLanguages :: "dashboard_env \<Rightarrow> dstate \<Rightarrow> DropdownFilterItem list" where
  "extractUniqueLanguages E st =
     sortItems E (foldl pushUnique [] (map language (concat (map breakdown (apiData st)))))"

definition extractUniqueEditors :: "dashboard_env \<Rightarrow> dstate \<Rightarrow> DropdownFilterItem list" where
  "extractUniqueEditors E st =
     sortItems E (foldl pushUnique [] (map editor (concat (map breakdown (apiData st)))))"

definition pushTeam :: "DropdownFilterItem list \<Rightarrow> GitHubTeam option \<Rightarrow> DropdownFilterItem list" where
  "pushTeam ts t =
     (case t of
        None \<Rightarrow> ts
      | Some tm \<Rightarrow> (case name tm of
                     None \<Rightarrow> ts
                   | Some teamName \<Rightarrow> if teamName = [] then ts else pushUnique ts teamName))"

definition extractUniqueTeams :: "dashboard_env \<Rightarrow> 'u DashboardState \<Rightarrow> DropdownFilterItem list" where
  "extractUniqueTeams E st = sortItems E (foldl pushTeam [] (teamsData st))"

definition onTimeFrameChange :: "dashboard_env \<Rightarrow> TimeFrame \<Rightarrow> dstate \<Rightarrow> dstate" where
  "onTimeFrameChange E tf st = applyFilters E (st\<lparr>timeFrame := tf\<rparr>)"

definition initData ::
  "dashboard_env \<Rightarrow> CopilotUsageOutput list \<Rightarrow> seats_payload \<Rightarrow> GitHubTeam option list \<Rightarrow>
     CurrentFilter option \<Rightarrow> dstate \<Rightarrow> dstate" where
  "initData E data sd td flt st =
     (let s1 = st\<lparr>apiData := data\<rparr>;
          s2 = s1\<lparr>filteredData := data\<rparr>;
          s3 = onTimeFrameChange E (timeFrame s2) s2;
          s4 = s3\<lparr>seatsData := sd\<rparr>;
          s5 = s4\<lparr>teamsData := td\<rparr>;
          s6 = s5\<lparr>languages := extractUniqueLanguages E s5\<rparr>;
          s7 = s6\<lparr>editors := extractUniqueEditors E s6\<rparr>;
          s8 = s7\<lparr>teams := extractUniqueTeams E s7\<rparr>
      in case flt of None \<Rightarrow> s8 | Some f \<Rightarrow> s8\<lparr>currentFilter := f\<rparr>)"

text \<open>
  \<^verbatim>\<open>const item = items.find(i => i.value === v); if (item) item.isSelected = !item.isSelected\<close>:
  the first item with the value is the one that is flipped.
\<close>

fun toggleItem :: "string \<Rightarrow> DropdownFilterItem list \<Rightarrow> DropdownFilterItem list" where
  "toggleItem v [] = []"
| "toggleItem v (x # xs) =
     (if item_value x = v then x\<lparr>isSelected := \<not> isSelected x\<rparr> # xs else x # toggleItem v xs)"

definition filterLanguage :: "dashboard_env \<Rightarrow> string \<Rightarrow> dstate \<Rightarrow> dstate" where
  "filterLanguage E l st =
     (case find (\<lambda>i. item_value i = l) (languages st) of
        None \<Rightarrow> st
      | Some item \<Rightarrow> applyFilters E (st\<lparr>languages := toggleItem l (languages st)\<rparr>))"

definition filterEditor :: "dashboard_env \<Rightarrow> string \<Rightarrow> dstate \<Rightarrow> dstate" where
  "filterEditor E e st =
     (case find (\<lambda>i. item_value i = e) (editors st) of
        None \<Rightarrow> st
      | Some item \<Rightarrow> applyFilters E (st\<lparr>editors := toggleItem e (editors st)\<rparr>))"

definition filterTeam :: "dashboard_env \<Rightarrow> string \<Rightarrow> dstate \<Rightarrow> dstate" where
  "filterTeam E t st =
     (case find (\<lambda>i. item_value i = t) (teams st) of
        None \<Rightarrow> st
      | Some item \<Rightarrow>
          (applyFilters E (st\<lparr>teams := toggleItem t (teams st)\<rparr>))\<lparr>hasPendingTeamChanges := True\<rparr>)"

definition toggleWeekendFilter :: "dashboard_env \<Rightarrow> bool \<Rightarrow> dstate \<Rightarrow> dstate" where
  "toggleWeekendFilter E hide st = applyFilters E (st\<lparr>hideWeekends := hide\<rparr>)"

definition clearSelected :: "DropdownFilterItem list \<Rightarrow> DropdownFilterItem list" where
  "clearSelected items = map (\<lambda>item. item\<lparr>isSelected := False\<rparr>) items"

text \<open>The part of \<^verbatim>\<open>resetAllFilters\<close> before its \<^verbatim>\<open>await\<close>.\<close>

definition resetAllFilters_sync :: "dashboard_env \<Rightarrow> dstate \<Rightarrow> dstate" where
  "resetAllFilters_sync E st =
     applyFilters E
       (st\<lparr>languages := clearSelected (languages st),
           editors := clearSelected (editors st),
           teams := clearSelected (teams st),
           hideWeekends := False,
           hasPendingTeamChanges := False\<rparr>)"

section \<open>Refresh protocol (dashboard-actions and dashboard-state)\<close>

record RefreshMetricsArg =
  rm_startDate :: "int option"
  rm_endDate :: "int option"
  rm_enterprise :: "string option"
  rm_organization :: "string option"
  rm_teams :: "string list option"

record RefreshSeatsArg =
  rs_date :: "int option"
  rs_enterprise :: "string option"
  rs_organization :: "string option"
  rs_teams :: "string list option"

record SeatServiceFilter =
  sf_date :: "int option"
  sf_enterprise :: string
  sf_organization :: string
  sf_team :: "string list"

record MetricsResult =
  mr_success :: bool
  mr_data :: "CopilotUsageOutput list option"
  mr_error :: "string option"

record SeatsResult =
  sr_success :: bool
  sr_data :: "seats_payload option"
  sr_error :: "string option"

text \<open>\<^verbatim>\<open>x || ""\<close> and \<^verbatim>\<open>errors[0]?.message || dflt\<close> (the empty string is falsy).\<close>

definition orEmpty :: "string option \<Rightarrow> string" where
  "orEmpty x = (case x of None \<Rightarrow> [] | Some s \<Rightarrow> s)"

definition firstMessageOr :: "string list \<Rightarrow> string \<Rightarrow> string" where
  "firstMessageOr errs dflt = (case errs of [] \<Rightarrow> dflt | m # ms \<Rightarrow> if m = [] then dflt else m)"

text \<open>
  The two server actions. The service each one awaits is a parameter; it throws (\<open>Inl\<close>)
  or returns a response (\<open>Inr\<close>).
\<close>

definition toMetricsFilter :: "RefreshMetricsArg \<Rightarrow> MetricsFilter" where
  "toMetricsFilter flt =
     \<lparr>startDate = rm_startDate flt, endDate = rm_endDate flt,
      mf_enterprise = orEmpty (rm_enterprise flt),
      mf_organization = orEmpty (rm_organization flt),
      team = Some (case rm_teams flt of None \<Rightarrow> [] | Some ts \<Rightarrow> ts)\<rparr>"

definition refreshMetricsData ::
  "(MetricsFilter \<Rightarrow> string + CopilotUsageOutput list ServerActionResponse) \<Rightarrow> RefreshMetricsArg \<Rightarrow> MetricsResult" where
  "refreshMetricsData getCopilotMetrics flt =
     (let metricsFilter = toMetricsFilter flt
      in case getCopilotMetrics metricsFilter of
           Inl error \<Rightarrow>
             \<lparr>mr_success = False, mr_data = None, mr_error = Some ''An unexpected error occurred''\<rparr>
         | Inr (Failure status errs) \<Rightarrow>
             \<lparr>mr_success = False, mr_data = None,
              mr_error = Some (firstMessageOr errs ''Failed to fetch metrics'')\<rparr>
         | Inr (OK response) \<Rightarrow>
             \<lparr>mr_success = True, mr_data = Some response, mr_error = None\<rparr>)"

definition toSeatServiceFilter :: "RefreshSeatsArg \<Rightarrow> SeatServiceFilter" where
  "toSeatServiceFilter flt =
     \<lparr>sf_date = rs_date flt,
      sf_enterprise = orEmpty (rs_enterprise flt),
      sf_organization = orEmpty (rs_organization flt),
      sf_team = (case rs_teams flt of None \<Rightarrow> [] | Some ts \<Rightarrow> ts)\<rparr>"

definition refreshSeatsData ::
  "(SeatServiceFilter \<Rightarrow> string + seats_payload ServerActionResponse) \<Rightarrow> RefreshSeatsArg \<Rightarrow> SeatsResult" where
  "refreshSeatsData getCopilotSeatsManagement flt =
     (case getCopilotSeatsManagement (toSeatServiceFilter flt) of
        Inl error \<Rightarrow>
          \<lparr>sr_success = False, sr_data = None, sr_error = Some ''An unexpected error occurred''\<rparr>
      | Inr (Failure status errs) \<Rightarrow>
          \<lparr>sr_success = False, sr_data = None,
           sr_error = Some (firstMessageOr errs ''Failed to fetch seats data'')\<rparr>
      | Inr (OK response) \<Rightarrow>
          \<lparr>sr_success = True, sr_data = Some response, sr_error = None\<rparr>)"

text \<open>
  The seat service behind \<open>refreshSeatsData\<close>: \<^verbatim>\<open>getCopilotSeatsManagement\<close> with
  \<^verbatim>\<open>getCopilotSeatsFromDatabase\<close> and \<^verbatim>\<open>getCopilotSeatsFromApi\<close>. Its surroundings are
  parameters: the configuration (\<^verbatim>\<open>ensureGitHubEnvConfig\<close>, \<^verbatim>\<open>cosmosConfiguration\<close>,
  \<^verbatim>\<open>process.env.GITHUB_API_SCOPE\<close>), the imported \<^verbatim>\<open>stringIsNullOrEmpty\<close> and
  \<^verbatim>\<open>unknownResponseError\<close>, the clock readings and date parser of the aggregation, and
  the two listings \<^verbatim>\<open>getDataFromDatabase\<close> and \<^verbatim>\<open>getDataFromApi\<close>, which query the
  document store or page through the REST API: a listing throws (\<open>Inl\<close>), or answers with
  the pages it has read or with a response whose status is not \<^verbatim>\<open>"OK"\<close>.
\<close>

record GitHubEnvConfig =
  env_enterprise :: string
  env_organization :: string
  env_token :: string
  env_version :: string

record seats_env =
  seats_ensureGitHubEnvConfig :: "GitHubEnvConfig ServerActionResponse"
  cosmosConfiguration :: bool
  GITHUB_API_SCOPE :: "string option"
  stringIsNullOrEmpty :: "string \<Rightarrow> bool"
  getDataFromDatabase :: "SeatServiceFilter \<Rightarrow> string + CopilotSeatsData list ServerActionResponse"
  getDataFromApi :: "SeatServiceFilter \<Rightarrow> string + CopilotSeatsData list ServerActionResponse"
  seats_unknownResponseError :: "string \<Rightarrow> string \<times> string list"
  seats_parseDate :: "string \<Rightarrow> int option"
  seats_thirtyDaysAgo0 :: int
  seats_thirtyDaysAgo :: int

text \<open>
  \<^verbatim>\<open>if (data.status !== "OK" || !data.response) return {status: "ERROR", errors: [{message: "No data found"}]}\<close>
  (the array of pages is truthy), else the aggregate of the pages under the team filter of
  the request; what the listing throws is caught and wrapped.
\<close>

definition getCopilotSeatsFromDatabase :: "seats_env \<Rightarrow> SeatServiceFilter \<Rightarrow> CopilotSeatsData ServerActionResponse" where
  "getCopilotSeatsFromDatabase SE flt =
     (case getDataFromDatabase SE flt of
        Inl e \<Rightarrow> (case seats_unknownResponseError SE e of (st, errs) \<Rightarrow> Failure st errs)
      | Inr (Failure st errs) \<Rightarrow> Failure ''ERROR'' [''No data found'']
      | Inr (OK response) \<Rightarrow>
          OK (aggregateSeatsData (seats_parseDate SE) (seats_thirtyDaysAgo0 SE) (seats_thirtyDaysAgo SE)
                response (Some (sf_team flt))))"

definition getCopilotSeatsFromApi :: "seats_env \<Rightarrow> SeatServiceFilter \<Rightarrow> CopilotSeatsData ServerActionResponse" where
  "getCopilotSeatsFromApi SE flt =
     (case getDataFromApi SE flt of
        Inl e \<Rightarrow> (case seats_unknownResponseError SE e of (st, errs) \<Rightarrow> Failure st errs)
      | Inr (Failure st errs) \<Rightarrow> Failure ''ERROR'' [''No data found'']
      | Inr (OK response) \<Rightarrow>
          OK (aggregateSeatsData (seats_parseDate SE) (seats_thirtyDaysAgo0 SE) (seats_thirtyDaysAgo SE)
                response (Some (sf_team flt))))"

text \<open>
  The \<^verbatim>\<open>switch (process.env.GITHUB_API_SCOPE)\<close> that fills the scope of the request
  from the configuration.
\<close>

definition scopedFilter :: "seats_env \<Rightarrow> GitHubEnvConfig \<Rightarrow> SeatServiceFilter \<Rightarrow> SeatServiceFilter" where
  "scopedFilter SE cfg flt =
     (if GITHUB_API_SCOPE SE = Some ''enterprise''
      then (if stringIsNullOrEmpty SE (sf_enterprise flt)
            then flt\<lparr>sf_enterprise := env_enterprise cfg\<rparr> else flt)
      else (if stringIsNullOrEmpty SE (sf_organization flt)
            then flt\<lparr>sf_organization := env_organization cfg\<rparr> else flt))"

text \<open>
  \<^verbatim>\<open>getCopilotSeatsManagement\<close> returns the configuration error as it is; with the
  configuration in place, a seats response that is not \<^verbatim>\<open>"OK"\<close> is answered with
  \<^verbatim>\<open>{status: "OK", response: {} as CopilotSeatsData}\<close>. Its own \<^verbatim>\<open>catch\<close> is not
  reached, since the two functions it awaits catch what they call.
\<close>

definition getCopilotSeatsManagement :: "seats_env \<Rightarrow> SeatServiceFilter \<Rightarrow> seats_payload ServerActionResponse" where
  "getCopilotSeatsManagement SE flt =
     (case seats_ensureGitHubEnvConfig SE of
        Failure st errs \<Rightarrow> Failure st errs
      | OK cfg \<Rightarrow>
          (let f = scopedFilter SE cfg flt;
               data = (if cosmosConfiguration SE then getCopilotSeatsFromDatabase SE f
                       else getCopilotSeatsFromApi SE f)
           in case data of
                Failure st errs \<Rightarrow> OK EmptyObject
              | OK response \<Rightarrow> OK (SeatsData response)))"



text \<open>
  What \<^verbatim>\<open>await Promise.all([refreshMetricsData(...), refreshSeatsData(...)])\<close> gives in
  the browser: it throws when a call of a server action is rejected, else it gives the two
  results.
\<close>

datatype refresh_outcome = Rejected string | Resolved MetricsResult SeatsResult

datatype completion = Fulfilled | Threw string

definition restoreSelections :: "DropdownFilterItem list \<Rightarrow> DropdownFilterItem list \<Rightarrow> DropdownFilterItem list" where
  "restoreSelections currentTeamSelections ts =
     map (\<lambda>t. case find (\<lambda>p. item_value p = item_value t) currentTeamSelections of
                None \<Rightarrow> t
              | Some previousSelection \<Rightarrow> t\<lparr>isSelected := isSelected previousSelection\<rparr>) ts"

text \<open>\<^verbatim>\<open>if (metricsResult.success && metricsResult.data) { ... }\<close> (an array is truthy).\<close>

definition applyMetricsResult :: "dashboard_env \<Rightarrow> MetricsResult \<Rightarrow> dstate \<Rightarrow> dstate" where
  "applyMetricsResult E metricsResult st =
     (if mr_success metricsResult then
        (case mr_data metricsResult of
           None \<Rightarrow> st
         | Some d \<Rightarrow>
             (let s1 = st\<lparr>apiData := d\<rparr>;
                  s2 = s1\<lparr>languages := extractUniqueLanguages E s1\<rparr>;
                  s3 = s2\<lparr>editors := extractUniqueEditors E s2\<rparr>;
                  currentTeamSelections = teams s3;
                  s4 = s3\<lparr>teams := extractUniqueTeams E s3\<rparr>;
                  s5 = s4\<lparr>teams := restoreSelections currentTeamSelections (teams s4)\<rparr>
              in applyFilters E s5))
      else st)"

text \<open>\<^verbatim>\<open>if (seatsResult.success && seatsResult.data) this.seatsData = seatsResult.data\<close> (an object is truthy).\<close>

definition applySeatsResult :: "SeatsResult \<Rightarrow> dstate \<Rightarrow> dstate" where
  "applySeatsResult seatsResult st =
     (if sr_success seatsResult then
        (case sr_data seatsResult of None \<Rightarrow> st | Some d \<Rightarrow> st\<lparr>seatsData := d\<rparr>)
      else st)"

text \<open>
  The \<^verbatim>\<open>try\<close> block of \<^verbatim>\<open>refreshDataWithTeams\<close> from its \<^verbatim>\<open>await\<close> on: it throws
  (\<open>Inl\<close>) when the \<^verbatim>\<open>await\<close> does, before any assignment.
\<close>

definition refresh_try :: "dashboard_env \<Rightarrow> refresh_outcome \<Rightarrow> dstate \<Rightarrow> string + dstate" where
  "refresh_try E out st =
     (case out of
        Rejected error \<Rightarrow> Inl error
      | Resolved metricsResult seatsResult \<Rightarrow>
          Inr (applySeatsResult seatsResult (applyMetricsResult E metricsResult st)))"

text \<open>
  The rest of \<^verbatim>\<open>refreshDataWithTeams\<close> once the \<^verbatim>\<open>await\<close> settles, run on the state
  as it is then: \<^verbatim>\<open>try\<close>, \<^verbatim>\<open>catch\<close> (which logs and does not throw again) and
  \<^verbatim>\<open>finally\<close>.
\<close>

definition refreshDataWithTeams_resume :: "dashboard_env \<Rightarrow> refresh_outcome \<Rightarrow> dstate \<Rightarrow> completion \<times> dstate" where
  "refreshDataWithTeams_resume E out st =
     (let st1 = (case refresh_try E out st of Inl error \<Rightarrow> st | Inr st' \<Rightarrow> st')
      in (Fulfilled, st1\<lparr>isLoading := False\<rparr>))"

text \<open>
  An \<^verbatim>\<open>async\<close> method of the state either finishes without waiting (\<open>Done\<close>), or
  suspends once: \<open>Await s m q k\<close> is the state \<open>s\<close> it leaves behind when it suspends, the
  arguments \<open>m\<close> and \<open>q\<close> of the two server actions it has called, and what it does when it
  is resumed with the outcome, on the state as it is at that time.
\<close>

datatype task =
  Done dstate
| Await dstate RefreshMetricsArg RefreshSeatsArg "refresh_outcome \<Rightarrow> dstate \<Rightarrow> completion \<times> dstate"

definition refreshDataWithTeams :: "dashboard_env \<Rightarrow> string list \<Rightarrow> dstate \<Rightarrow> task" where
  "refreshDataWithTeams E selectedTeams st =
     (let s1 = st\<lparr>isLoading := True\<rparr>
      in Await s1
           \<lparr>rm_startDate = cf_startDate (currentFilter s1), rm_endDate = cf_endDate (currentFilter s1),
            rm_enterprise = cf_enterprise (currentFilter s1),
            rm_organization = cf_organization (currentFilter s1),
            rm_teams = Some selectedTeams\<rparr>
           \<lparr>rs_date = cf_endDate (currentFilter s1),
            rs_enterprise = cf_enterprise (currentFilter s1),
            rs_organization = cf_organization (currentFilter s1),
            rs_teams = Some selectedTeams\<rparr>
           (refreshDataWithTeams_resume E))"

text \<open>\<^verbatim>\<open>await t; f\<close>: the statements \<open>f\<close> run when \<open>t\<close> is fulfilled, and are skipped when it throws.\<close>

fun andThen :: "task \<Rightarrow> (dstate \<Rightarrow> dstate) \<Rightarrow> task" where
  "andThen (Done s) f = Done (f s)"
| "andThen (Await s m q k) f =
     Await s m q (\<lambda>out s'. case k out s' of
                              (Fulfilled, s'') \<Rightarrow> (Fulfilled, f s'')
                            | (Threw e, s'') \<Rightarrow> (Threw e, s''))"

text \<open>\<^verbatim>\<open>try { await t } catch (error) { console.error(...) }\<close>\<close>

fun catching :: "task \<Rightarrow> task" where
  "catching (Done s) = Done s"
| "catching (Await s m q k) =
     Await s m q (\<lambda>out s'. case k out s' of
                              (Fulfilled, s'') \<Rightarrow> (Fulfilled, s'')
                            | (Threw e, s'') \<Rightarrow> (Fulfilled, s''))"

definition refreshTeamDataIfNeeded :: "dashboard_env \<Rightarrow> dstate \<Rightarrow> task" where
  "refreshTeamDataIfNeeded E st =
     (if hasPendingTeamChanges st then
        (let selectedTeams = map item_value (filter isSelected (teams st))
         in andThen (refreshDataWithTeams E selectedTeams st) (\<lambda>s. s\<lparr>hasPendingTeamChanges := False\<rparr>))
      else Done st)"

definition resetAllFilters :: "dashboard_env \<Rightarrow> dstate \<Rightarrow> task" where
  "resetAllFilters E st = catching (refreshDataWithTeams E [] (resetAllFilters_sync E st))"

text \<open>Reading a task: the server calls it has issued, the state it leaves when it
  suspends or finishes, and its result when resumed.\<close>

fun issued :: "task \<Rightarrow> (RefreshMetricsArg \<times> RefreshSeatsArg) list" where
  "issued (Done s) = []"
| "issued (Await s m q k) = [(m, q)]"

fun stateLeft :: "task \<Rightarrow> dstate" where
  "stateLeft (Done s) = s"
| "stateLeft (Await s m q k) = s"

fun resume :: "task \<Rightarrow> refresh_outcome \<Rightarrow> dstate \<Rightarrow> completion \<times> dstate" where
  "resume (Done s) out s' = (Fulfilled, s')"
| "resume (Await s m q k) out s' = k out s'"




section \<open>Usage records as objects: the local filter operations on a store\<close>

text \<open>
  Here the two arrays of the state hold references, and a store maps each reference to the
  object it points to; \<open>next_ref\<close> is the first reference not yet in use. An assignment
  \<^verbatim>\<open>item.field = v\<close> changes the store at the reference of \<open>item\<close>, so that it is seen through
  every array that holds the reference.
\<close>

record store =
  objs :: "nat \<Rightarrow> CopilotUsageOutput"
  next_ref :: nat

type_synonym rstate = "nat DashboardState"

definition alloc :: "CopilotUsageOutput \<Rightarrow> store \<Rightarrow> nat \<times> store" where
  "alloc v h = (next_ref h, h\<lparr>objs := (objs h)(next_ref h := v), next_ref := Suc (next_ref h)\<rparr>)"

fun alloc_all :: "CopilotUsageOutput list \<Rightarrow> store \<Rightarrow> nat list \<times> store" where
  "alloc_all [] h = ([], h)"
| "alloc_all (v # vs) h =
     (case alloc v h of (a, h1) \<Rightarrow> (case alloc_all vs h1 of (rs, h2) \<Rightarrow> (a # rs, h2)))"

definition assignObj :: "(CopilotUsageOutput \<Rightarrow> CopilotUsageOutput) \<Rightarrow> nat \<Rightarrow> store \<Rightarrow> store" where
  "assignObj f a h = h\<lparr>objs := (objs h)(a := f (objs h a))\<rparr>"

definition forEachObj :: "nat list \<Rightarrow> (CopilotUsageOutput \<Rightarrow> CopilotUsageOutput) \<Rightarrow> store \<Rightarrow> store" where
  "forEachObj rs f h = fold (assignObj f) rs h"

text \<open>
  \<^verbatim>\<open>JSON.parse(JSON.stringify(this.apiData))\<close> builds new objects with the contents of
  those of \<open>apiData\<close>. \<open>groupByTimeFrame\<close> is handed the copies only; the rows it returns are
  taken as objects of their own.
\<close>

definition aggregatedDataByTimeFrame_store ::
  "dashboard_env \<Rightarrow> rstate \<Rightarrow> bool \<Rightarrow> store \<Rightarrow> nat list \<times> store" where
  "aggregatedDataByTimeFrame_store E st hide h =
     (case alloc_all (map (objs h) (apiData st)) h of
        (items0, h1) \<Rightarrow>
          (let items = (if hide then filter (\<lambda>r. notWeekend E (objs h1 r)) items0 else items0)
           in if timeFrame st = daily then (items, forEachObj items (setDisplay E) h1)
              else alloc_all (groupByTimeFrame E (groupItems (timeFrame st) (map (objs h1) items))) h1))"

definition applyFilters_store :: "dashboard_env \<Rightarrow> rstate \<Rightarrow> store \<Rightarrow> rstate \<times> store" where
  "applyFilters_store E st h =
     (case aggregatedDataByTimeFrame_store E st (hideWeekends st) h of
        (data, h1) \<Rightarrow>
          (let selectedLanguages = filter isSelected (languages st);
               selectedEditors = filter isSelected (editors st);
               h2 = (if length selectedLanguages \<noteq> 0
                     then forEachObj data (keepLanguages selectedLanguages) h1 else h1);
               h3 = (if length selectedEditors \<noteq> 0
                     then forEachObj data (keepEditors selectedEditors) h2 else h2)
           in (st\<lparr>filteredData := filter (\<lambda>r. hasBreakdown (objs h3 r)) data\<rparr>, h3)))"

definition filterLanguage_store :: "dashboard_env \<Rightarrow> string \<Rightarrow> rstate \<Rightarrow> store \<Rightarrow> rstate \<times> store" where
  "filterLanguage_store E l st h =
     (case find (\<lambda>i. item_value i = l) (languages st) of
        None \<Rightarrow> (st, h)
      | Some item \<Rightarrow> applyFilters_store E (st\<lparr>languages := toggleItem l (languages st)\<rparr>) h)"

definition filterEditor_store :: "dashboard_env \<Rightarrow> string \<Rightarrow> rstate \<Rightarrow> store \<Rightarrow> rstate \<times> store" where
  "filterEditor_store E e st h =
     (case find (\<lambda>i. item_value i = e) (editors st) of
        None \<Rightarrow> (st, h)
      | Some item \<Rightarrow> applyFilters_store E (st\<lparr>editors := toggleItem e (editors st)\<rparr>) h)"

definition filterTeam_store :: "dashboard_env \<Rightarrow> string \<Rightarrow> rstate \<Rightarrow> store \<Rightarrow> rstate \<times> store" where
  "filterTeam_store E t st h =
     (case find (\<lambda>i. item_value i = t) (teams st) of
        None \<Rightarrow> (st, h)
      | Some item \<Rightarrow>
          (case applyFilters_store E (st\<lparr>teams := toggleItem t (teams st)\<rparr>) h of
             (s, h') \<Rightarrow> (s\<lparr>hasPendingTeamChanges := True\<rparr>, h')))"

definition toggleWeekendFilter_store :: "dashboard_env \<Rightarrow> bool \<Rightarrow> rstate \<Rightarrow> store \<Rightarrow> rstate \<times> store" where
  "toggleWeekendFilter_store E hide st h = applyFilters_store E (st\<lparr>hideWeekends := hide\<rparr>) h"

definition onTimeFrameChange_store :: "dashboard_env \<Rightarrow> TimeFrame \<Rightarrow> rstate \<Rightarrow> store \<Rightarrow> rstate \<times> store" where
  "onTimeFrameChange_store E tf st h = applyFilters_store E (st\<lparr>timeFrame := tf\<rparr>) h"

definition resetAllFilters_sync_store :: "dashboard_env \<Rightarrow> rstate \<Rightarrow> store \<Rightarrow> rstate \<times> store" where
  "resetAllFilters_sync_store E st h =
     applyFilters_store E
       (st\<lparr>languages := clearSelected (languages st),
           editors := clearSelected (editors st),
           teams := clearSelected (teams st),
           hideWeekends := False,
           hasPendingTeamChanges := False\<rparr>) h"

text \<open>The records a state of references stands for in a store.\<close>

definition view :: "rstate \<Rightarrow> store \<Rightarrow> dstate" where
  "view st h =
     \<lparr>filteredData = map (objs h) (filteredData st), languages = languages st,
      editors = editors st, teams = teams st, timeFrame = timeFrame st,
      hideWeekends = hideWeekends st, isLoading = isLoading st, seatsData = seatsData st,
      teamsData = teamsData st, apiData = map (objs h) (apiData st),
      hasPendingTeamChanges = hasPendingTeamChanges st, currentFilter = currentFilter st\<rparr>"

text \<open>Every reference of \<open>apiData\<close> is in use.\<close>

definition allocated :: "rstate \<Rightarrow> store \<Rightarrow> bool" where
  "allocated st h = list_all (\<lambda>r. r < next_ref h) (apiData st)"

text \<open>What it is for a local operation, run on a state \<open>st\<close> and a store \<open>h\<close>, to leave
  the raw dataset alone: the array \<open>apiData\<close> holds the same references, and the objects
  they point to are as they were.\<close>

definition apiDataUnchanged :: "rstate \<Rightarrow> store \<Rightarrow> rstate \<times> store \<Rightarrow> bool" where
  "apiDataUnchanged st h r =
     (apiData (fst r) = apiData st
      \<and> map (objs (snd r)) (apiData st) = map (objs h) (apiData st)
      \<and> allocated (fst r) (snd r))"

definition viewOf :: "rstate \<times> store \<Rightarrow> dstate" where
  "viewOf r = view (fst r) (snd r)"

section \<open>Example inputs\<close>

text \<open>Two pages that hold the same login, assigned through team \<open>x\<close> on the first page
  and through team \<open>y\<close> on the second.\<close>

definition noDate :: "string \<Rightarrow> int option" where
  "noDate s = None"

definition seat_a_x :: SeatAssignment where
  "seat_a_x = \<lparr>assignee_login = ''a'',
               assigning_team = Some \<lparr>team_id = Some 1, name = Some ''x''\<rparr>,
               last_activity_at = None, seat_rest = []\<rparr>"

definition seat_a_y :: SeatAssignment where
  "seat_a_y = \<lparr>assignee_login = ''a'',
               assigning_team = Some \<lparr>team_id = Some 2, name = Some ''y''\<rparr>,
               last_activity_at = None, seat_rest = []\<rparr>"

definition page_x :: CopilotSeatsData where
  "page_x = \<lparr>enterprise = None, organization = Some ''o'', seats = [seat_a_x], total_seats = 1,
             total_active_seats = Some 0, page = Some 1, has_next_page = Some True,
             last_update = None, date = Some [], doc_id = Some []\<rparr>"

definition page_y :: CopilotSeatsData where
  "page_y = \<lparr>enterprise = None, organization = Some ''o'', seats = [seat_a_y], total_seats = 1,
             total_active_seats = Some 0, page = Some 2, has_next_page = Some False,
             last_update = None, date = Some [], doc_id = Some []\<rparr>"

text \<open>The scenario of the specification: login \<open>a\<close> active now on both pages, login \<open>b\<close>
  last active forty days ago. Times are in days; the clock reads day 100.\<close>

definition example_parseDate :: "string \<Rightarrow> int option" where
  "example_parseDate s =
     (if s = ''2024-04-09'' then Some 100 else if s = ''2024-02-29'' then Some 60 else None)"

definition seat_a_now :: SeatAssignment where
  "seat_a_now = \<lparr>assignee_login = ''a'', assigning_team = None,
                 last_activity_at = Some ''2024-04-09'', seat_rest = []\<rparr>"

definition seat_b_old :: SeatAssignment where
  "seat_b_old = \<lparr>assignee_login = ''b'', assigning_team = None,
                 last_activity_at = Some ''2024-02-29'', seat_rest = []\<rparr>"

definition scenario_pages :: "CopilotSeatsData list" where
  "scenario_pages =
     [page_x\<lparr>seats := [seat_a_now, seat_b_old], total_seats := 2\<rparr>,
      page_y\<lparr>seats := [seat_a_now], total_seats := 2\<rparr>]"

text \<open>An organisation with three teams: the request for team \<open>t2\<close> is answered with
  status 404, the others with one record each, the later day first.\<close>

definition usage_day1 :: CopilotUsageOutput where
  "usage_day1 = \<lparr>day = ''2024-01-01'',
                 breakdown = [\<lparr>language = ''python'', editor = ''vscode'', breakdown_rest = []\<rparr>],
                 time_frame_week = ''w1'', time_frame_month = ''m1'', time_frame_display = ''d1'',
                 usage_rest = []\<rparr>"

definition usage_day2 :: CopilotUsageOutput where
  "usage_day2 = \<lparr>day = ''2024-01-02'',
                 breakdown = [\<lparr>language = ''java'', editor = ''vscode'', breakdown_rest = []\<rparr>],
                 time_frame_week = ''w1'', time_frame_month = ''m1'', time_frame_display = ''d2'',
                 usage_rest = []\<rparr>"

definition example_fetch :: "string \<Rightarrow> string \<Rightarrow> string \<Rightarrow> nat \<times> CopilotUsageOutput list fetch_result" where
  "example_fetch url tok ver =
     (if url = ''https://api.github.com/orgs/o/team/t2/copilot/metrics''
      then (1, FetchResolved False 404 (Inl []))
      else if url = ''https://api.github.com/orgs/o/team/t1/copilot/metrics''
      then (2, FetchResolved True 200 (Inr [usage_day2]))
      else (3, FetchResolved True 200 (Inr [usage_day1])))"

definition example_formatResponseError :: "string \<Rightarrow> nat \<Rightarrow> string \<times> string list" where
  "example_formatResponseError entityName code = (''NOT_FOUND'', [entityName])"

definition example_unknownResponseError :: "string \<Rightarrow> string \<times> string list" where
  "example_unknownResponseError e = (''ERROR'', [e])"

definition example_label :: "CopilotUsageOutput list \<Rightarrow> CopilotUsageOutput list" where
  "example_label data = data"

definition example_formatYmd :: "int \<Rightarrow> string" where
  "example_formatYmd d = ''2024-01-01''"

definition example_dayTime :: "string \<Rightarrow> int" where
  "example_dayTime d = (if d = ''2024-01-01'' then 1704067200000 else 1704153600000)"

definition example_config :: GitHubConfig where
  "example_config = \<lparr>token = ''tok'', version = ''2022-11-28''\<rparr>"

definition example_metrics_env :: "CopilotUsageOutput list metrics_env" where
  "example_metrics_env =
     \<lparr>fetch = example_fetch, ensureGitHubEnvConfig = OK example_config,
      formatResponseError = example_formatResponseError,
      unknownResponseError = example_unknownResponseError,
      applyTimeFrameLabel = example_label, formatYmd = example_formatYmd,
      dayTime = example_dayTime\<rparr>"

definition example_teams_filter :: "string list \<Rightarrow> MetricsFilter" where
  "example_teams_filter ts =
     \<lparr>startDate = None, endDate = None, mf_enterprise = [], mf_organization = ''o'',
      team = Some ts\<rparr>"

text \<open>A dashboard on two days of usage, and a day with no breakdown entry.\<close>

definition example_getDay :: "string \<Rightarrow> nat" where
  "example_getDay d = 1"

definition example_formatDate :: "string \<Rightarrow> string" where
  "example_formatDate d = d"

definition example_groupByTimeFrame :: "(string \<times> CopilotUsageOutput list) list \<Rightarrow> CopilotUsageOutput list" where
  "example_groupByTimeFrame groups =
     concat (map (\<lambda>(k, items). case rev items of [] \<Rightarrow> [] | x # xs \<Rightarrow> [x\<lparr>time_frame_display := k\<rparr>]) groups)"

definition example_rank :: "string \<Rightarrow> nat" where
  "example_rank s = length s"

definition example_dashboard_env :: dashboard_env where
  "example_dashboard_env =
     \<lparr>getDay = example_getDay, formatDate = example_formatDate,
      groupByTimeFrame = example_groupByTimeFrame, collationRank = example_rank\<rparr>"

definition usage_no_breakdown :: CopilotUsageOutput where
  "usage_no_breakdown = \<lparr>day = ''2024-01-03'', breakdown = [],
                         time_frame_week = ''w1'', time_frame_month = ''m1'',
                         time_frame_display = ''d3'', usage_rest = []\<rparr>"

text \<open>The state after a first load, a change to the daily view, the choice of the
  language \<open>python\<close>, and a second load of the same data (the page rendered again).\<close>

definition loaded_state :: dstate where
  "loaded_state =
     onTimeFrameChange example_dashboard_env daily
       (initData example_dashboard_env [usage_day1, usage_day2] EmptyObject [] None initialState)"

definition reloaded_state :: dstate where
  "reloaded_state =
     initData example_dashboard_env [usage_day1, usage_day2] EmptyObject [] None
       (filterLanguage example_dashboard_env ''python'' loaded_state)"

text \<open>The state after a load of one day that has no breakdown entry, in the daily view.\<close>

definition sparse_state :: dstate where
  "sparse_state =
     onTimeFrameChange example_dashboard_env daily
       (initData example_dashboard_env [usage_no_breakdown] EmptyObject [] None initialState)"

text \<open>A dashboard with two teams, in the daily view; a metrics service that throws and one
  that answers with the first day; a seat service that answers with a page and one that
  has no data.\<close>

definition example_teamsData :: "GitHubTeam option list" where
  "example_teamsData = [Some \<lparr>team_id = Some 2, name = Some ''beta''\<rparr>,
                        Some \<lparr>team_id = Some 1, name = Some ''alpha''\<rparr>]"

definition team_state :: dstate where
  "team_state =
     onTimeFrameChange example_dashboard_env daily
       (initData example_dashboard_env [usage_day1, usage_day2] EmptyObject example_teamsData None
          initialState)"

definition example_getMetrics_throws ::
  "MetricsFilter \<Rightarrow> string + CopilotUsageOutput list ServerActionResponse" where
  "example_getMetrics_throws f = Inl ''network''"

definition example_getMetrics_ok ::
  "MetricsFilter \<Rightarrow> string + CopilotUsageOutput list ServerActionResponse" where
  "example_getMetrics_ok f = Inr (OK [usage_day1])"

definition example_getSeats_ok ::
  "SeatServiceFilter \<Rightarrow> string + seats_payload ServerActionResponse" where
  "example_getSeats_ok f = Inr (OK (SeatsData page_x))"

definition example_getSeats_fails ::
  "SeatServiceFilter \<Rightarrow> string + seats_payload ServerActionResponse" where
  "example_getSeats_fails f = Inr (Failure ''ERROR'' [''No data found''])"

definition example_metricsArg :: RefreshMetricsArg where
  "example_metricsArg = \<lparr>rm_startDate = None, rm_endDate = None, rm_enterprise = None,
                          rm_organization = Some ''o'', rm_teams = Some [''alpha'']\<rparr>"

definition example_seatsArg :: RefreshSeatsArg where
  "example_seatsArg = \<lparr>rs_date = None, rs_enterprise = None, rs_organization = Some ''o'',
                        rs_teams = Some [''alpha'']\<rparr>"

definition outcome_metrics_failed :: refresh_outcome where
  "outcome_metrics_failed =
     Resolved (refreshMetricsData example_getMetrics_throws example_metricsArg)
              (refreshSeatsData example_getSeats_ok example_seatsArg)"

definition outcome_seats_failed :: refresh_outcome where
  "outcome_seats_failed =
     Resolved (refreshMetricsData example_getMetrics_ok example_metricsArg)
              (refreshSeatsData example_getSeats_fails example_seatsArg)"

text \<open>A store with the two days of usage as objects 0 and 1, and a state in the daily
  view whose \<open>apiData\<close> holds the two references.\<close>

definition example_objs :: "nat \<Rightarrow> CopilotUsageOutput" where
  "example_objs r = (if r = 0 then usage_day1 else usage_day2)"

definition example_store :: store where
  "example_store = \<lparr>objs = example_objs, next_ref = 2\<rparr>"

definition example_rstate :: rstate where
  "example_rstate =
     \<lparr>filteredData = [], languages = [\<lparr>item_value = ''java'', isSelected = False\<rparr>,
                                      \<lparr>item_value = ''python'', isSelected = False\<rparr>],
      editors = [\<lparr>item_value = ''vscode'', isSelected = False\<rparr>], teams = [],
      timeFrame = daily, hideWeekends = False, isLoading = False, seatsData = EmptyObject,
      teamsData = [], apiData = [0, 1], hasPendingTeamChanges = False,
      currentFilter = \<lparr>cf_startDate = None, cf_endDate = None, cf_enterprise = None,
                        cf_organization = None\<rparr>\<rparr>"









definition example_getMetrics_ok2 ::
  "MetricsFilter \<Rightarrow> string + CopilotUsageOutput list ServerActionResponse" where
  "example_getMetrics_ok2 f = Inr (OK [usage_day2])"

definition example_getSeats_ok2 ::
  "SeatServiceFilter \<Rightarrow> string + seats_payload ServerActionResponse" where
  "example_getSeats_ok2 f = Inr (OK (SeatsData page_y))"

definition outcome_fresh_x :: refresh_outcome where
  "outcome_fresh_x =
     Resolved (refreshMetricsData example_getMetrics_ok example_metricsArg)
              (refreshSeatsData example_getSeats_ok example_seatsArg)"

definition outcome_fresh_y :: refresh_outcome where
  "outcome_fresh_y =
     Resolved (refreshMetricsData example_getMetrics_ok2 example_metricsArg)
              (refreshSeatsData example_getSeats_ok2 example_seatsArg)"

section \<open>Properties\<close>

subsection \<open>Seat aggregation\<close>

lemma uniqueSeatsMap_foldl:
  "map snd (foldl uniqueSeatsMap_step m xs) =
     map snd m @ firstByLogin (filter (\<lambda>t. assignee_login t \<notin> set (map fst m)) xs)"
proof (induction xs arbitrary: m)
  case Nil
  then show ?case by simp
next
  case (Cons x xs)
  show ?case
  proof (cases "assignee_login x \<in> set (map fst m)")
    case True
    then have "uniqueSeatsMap_step m x = m"
      by (simp add: uniqueSeatsMap_step_def map_has_def)
    with Cons True show ?thesis by simp
  next
    case False
    then have st: "uniqueSeatsMap_step m x = m @ [(assignee_login x, x)]"
      by (simp add: uniqueSeatsMap_step_def map_has_def)
    have "filter (\<lambda>t. assignee_login t \<notin> set (map fst (m @ [(assignee_login x, x)]))) xs
        = filter (\<lambda>t. assignee_login t \<noteq> assignee_login x)
            (filter (\<lambda>t. assignee_login t \<notin> set (map fst m)) xs)"
      by (auto intro: filter_cong)
    with Cons[of "m @ [(assignee_login x, x)]"] False st show ?thesis by simp
  qed
qed

lemma uniqueSeats_firstByLogin: "uniqueSeats xs = firstByLogin xs"
  using uniqueSeatsMap_foldl[of "[]" xs] by (simp add: uniqueSeats_def)

lemma set_firstByLogin_subset: "set (firstByLogin xs) \<subseteq> set xs"
  by (induction xs rule: firstByLogin.induct) auto

lemma distinct_firstByLogin: "distinct (map assignee_login (firstByLogin xs))"
proof (induction xs rule: firstByLogin.induct)
  case 1
  then show ?case by simp
next
  case (2 s ss)
  have "assignee_login s \<notin>
          assignee_login ` set (firstByLogin (filter (\<lambda>t. assignee_login t \<noteq> assignee_login s) ss))"
    using set_firstByLogin_subset[of "filter (\<lambda>t. assignee_login t \<noteq> assignee_login s) ss"]
    by auto
  with 2 show ?case by simp
qed

lemma find_filter_other_login:
  "l \<noteq> k \<Longrightarrow>
     find (\<lambda>t. assignee_login t = l) (filter (\<lambda>t. assignee_login t \<noteq> k) xs)
       = find (\<lambda>t. assignee_login t = l) xs"
  by (induction xs) auto

lemma find_firstByLogin:
  "find (\<lambda>t. assignee_login t = l) (firstByLogin xs) = find (\<lambda>t. assignee_login t = l) xs"
proof (induction xs rule: firstByLogin.induct)
  case 1
  then show ?case by simp
next
  case (2 s ss)
  then show ?case by (simp add: find_filter_other_login)
qed

lemma seats_fillActiveSeats: "seats (fillActiveSeats p c0 d) = seats d"
  by (simp add: fillActiveSeats_def)

lemma aggregate_scenario:
  "seats (aggregateSeatsData example_parseDate 70 70 scenario_pages None) = [seat_a_now, seat_b_old]
   \<and> total_seats (aggregateSeatsData example_parseDate 70 70 scenario_pages None) = 2
   \<and> total_active_seats (aggregateSeatsData example_parseDate 70 70 scenario_pages None) = Some 1"
  by code_simp

text \<open>
  C1. Whatever the pages and the team filter, the aggregate has a count of active seats,
  and it is at most its count of seats. The three paths of the function (no page, one
  page, several pages) are the three cases of the proof.
\<close>

theorem aggregate_active_le_total:
  "\<exists>a. total_active_seats (aggregateSeatsData p c0 c data tf) = Some a
       \<and> a \<le> total_seats (aggregateSeatsData p c0 c data tf)"
proof (cases data)
  case Nil
  then show ?thesis by (simp add: emptySeatsData_def)
next
  case (Cons d ds)
  show ?thesis
  proof (cases ds)
    case Nil
    with Cons show ?thesis by (simp add: Let_def)
  next
    case (Cons e es)
    with \<open>data = d # ds\<close> show ?thesis by (simp add: Let_def)
  qed
qed

text \<open>
  C2, as the specification words it, fails: the source filters by team before it
  deduplicates. With the login \<open>a\<close> assigned through team \<open>x\<close> on the first page and through
  team \<open>y\<close> on the second, and the filter \<open>y\<close>, the source keeps the seat of the second page
  (one seat), while deduplicating first keeps the seat of the first page, which the filter
  then drops (no seat).
\<close>

theorem aggregate_dedup_before_filter_counterexample:
  "total_seats (aggregateSeatsData noDate 0 0 [page_x, page_y] (Some [''y''])) = 1
   \<and> seats (aggregateSeatsData noDate 0 0 [page_x, page_y] (Some [''y''])) = [seat_a_y]
   \<and> seats_dedup_then_filter [page_x, page_y] [''y''] = []"
  by (simp add: page_x_def page_y_def seat_a_x_def seat_a_y_def Let_def applyTeamFilter_def
      uniqueSeats_def uniqueSeatsMap_step_def map_has_def fillActiveSeats_def
      seats_dedup_then_filter_def inTeamFilter_def)

text \<open>
  C2, amended. For two or more pages and a non-empty team filter the aggregate is built
  in this order: the seats of all pages are flattened, the team filter is applied, the
  seats that are left are deduplicated by login (no login twice; for each login the first
  seat in input order among those the filter kept), and the two totals are counted from
  the result.
\<close>

theorem aggregate_filter_then_dedup:
  assumes "2 \<le> length data" and "tf \<noteq> []"
  shows "seats (aggregateSeatsData p c0 c data (Some tf)) = seats_filter_then_dedup data tf
       \<and> distinct (map assignee_login (seats (aggregateSeatsData p c0 c data (Some tf))))
       \<and> (\<forall>l. find (\<lambda>t. assignee_login t = l) (seats (aggregateSeatsData p c0 c data (Some tf)))
              = find (\<lambda>t. assignee_login t = l) (filter (inTeamFilter tf) (concat (map seats data))))
       \<and> total_seats (aggregateSeatsData p c0 c data (Some tf))
           = length (seats (aggregateSeatsData p c0 c data (Some tf)))
       \<and> total_active_seats (aggregateSeatsData p c0 c data (Some tf))
           = Some (length (filter (isActiveSeat p c) (seats (aggregateSeatsData p c0 c data (Some tf)))))"
proof -
  from assms(1) obtain d e es where data: "data = d # e # es"
    by (cases data; cases "tl data") auto
  have s: "seats (aggregateSeatsData p c0 c data (Some tf)) = seats_filter_then_dedup data tf"
    using assms(2)
    by (simp add: data Let_def applyTeamFilter_def uniqueSeats_firstByLogin
        seats_filter_then_dedup_def seats_fillActiveSeats)
  have t: "total_seats (aggregateSeatsData p c0 c data (Some tf))
           = length (seats (aggregateSeatsData p c0 c data (Some tf)))"
    by (simp add: data Let_def)
  have a: "total_active_seats (aggregateSeatsData p c0 c data (Some tf))
           = Some (length (filter (isActiveSeat p c) (seats (aggregateSeatsData p c0 c data (Some tf)))))"
    by (simp add: data Let_def)
  show ?thesis
    unfolding s using t a
    by (simp add: s seats_filter_then_dedup_def distinct_firstByLogin find_firstByLogin)
qed

theorem aggregate_filter_then_dedup_witness:
  "2 \<le> length [page_x, page_y] \<and> [''y''] \<noteq> []
   \<and> seats (aggregateSeatsData noDate 0 0 [page_x, page_y] (Some [''y''])) = [seat_a_y]"
  using aggregate_filter_then_dedup[of "[page_x, page_y]" "[''y'']" noDate 0 0]
  by (simp add: page_x_def page_y_def seat_a_x_def seat_a_y_def seats_filter_then_dedup_def
      inTeamFilter_def)

subsection \<open>Metrics for a list of teams\<close>

lemma filter_isRejected_Nil: "\<not> list_ex isRejected ps \<Longrightarrow> filter isRejected ps = []"
  by (induction ps) auto

lemma promise_all_fulfilled: "\<not> list_ex isRejected ps \<Longrightarrow> promise_all ps = Inr (settledValues ps)"
  by (simp add: promise_all_def filter_isRejected_Nil)

lemma fulfilledOK_not_rejected: "list_all fulfilledOK ps \<Longrightarrow> \<not> list_ex isRejected ps"
proof (induction ps)
  case Nil then show ?case by simp
next
  case (Cons p ps)
  then show ?case by (cases p rule: fulfilledOK.cases) auto
qed

lemma fulfilledOK_values: "list_all fulfilledOK ps \<Longrightarrow> filter (\<lambda>r. \<not> isOK r) (settledValues ps) = []"
proof (induction ps)
  case Nil then show ?case by simp
next
  case (Cons p ps)
  then show ?case by (cases p rule: fulfilledOK.cases) auto
qed

lemma not_all_OK_values:
  "\<not> list_ex isRejected ps \<Longrightarrow> \<not> list_all fulfilledOK ps \<Longrightarrow>
     \<exists>r. find (\<lambda>r. \<not> isOK r) (settledValues ps) = Some r \<and> \<not> isOK r"
proof (induction ps)
  case Nil then show ?case by simp
next
  case (Cons p ps)
  then show ?case by (cases p rule: fulfilledOK.cases) auto
qed

lemma find_filter_hd: "find P xs = Some r \<Longrightarrow> \<exists>rs. filter P xs = r # rs"
  by (induction xs) (auto split: if_splits)

lemma promise_all_rejected:
  assumes "list_ex isRejected ps"
  shows "\<exists>p \<in> set ps. isRejected p \<and> (\<forall>q \<in> set ps. isRejected q \<longrightarrow> fst p \<le> fst q)
           \<and> promise_all ps = Inl (rejectionReason p)"
proof -
  from assms obtain r rs where f: "filter isRejected ps = r # rs"
    by (cases "filter isRejected ps") (auto simp: list_ex_iff filter_empty_conv)
  let ?p = "arg_min_list fst (r # rs)"
  have mem: "?p \<in> set (r # rs)" by (rule arg_min_list_in) simp
  then have "?p \<in> set (filter isRejected ps)" by (simp add: f)
  then have 1: "?p \<in> set ps" and 2: "isRejected ?p" by auto
  have 3: "\<forall>q \<in> set ps. isRejected q \<longrightarrow> fst ?p \<le> fst q"
  proof (intro ballI impI)
    fix q assume "q \<in> set ps" "isRejected q"
    then have "q \<in> set (filter isRejected ps)" by simp
    then have q: "q \<in> set (r # rs)" by (simp only: f)
    have "fst ?p = Min (fst ` set (r # rs))" by (rule f_arg_min_list_f) simp
    also have "\<dots> \<le> fst q" using q by (intro Min_le) auto
    finally show "fst ?p \<le> fst q" .
  qed
  have "promise_all ps = Inl (rejectionReason ?p)" by (simp add: promise_all_def f)
  with 1 2 3 show ?thesis by blast
qed

text \<open>
  C3. A fetch for one or more teams, with the configuration in place. If every request
  settles with an \<^verbatim>\<open>"OK"\<close> response, the result is \<^verbatim>\<open>"OK"\<close> and holds exactly the
  records of all the responses, in ascending order of day (records of the same day in the
  order of the concatenation). If some request does not, the result is not \<^verbatim>\<open>"OK"\<close>, so
  it carries no record of the teams that succeeded: when no request throws it is the first
  response in the order of the teams whose status is not \<^verbatim>\<open>"OK"\<close>, and when one throws it
  is the unknown-error response for the request that threw first.
\<close>

theorem teams_metrics_all_or_nothing:
  assumes env: "ensureGitHubEnvConfig E = OK cfg" and tm: "team f = Some ts" and ne: "ts \<noteq> []"
  shows "(list_all fulfilledOK (map (teamMetricsPromise E cfg f) ts) \<longrightarrow>
            (\<exists>res. getCopilotTeamsMetricsFromApi E f = OK res
                 \<and> sorted (map (\<lambda>a. dayTime E (day a)) res)
                 \<and> mset res = mset (concat (map responseRecords (settledValues (map (teamMetricsPromise E cfg f) ts))))
                 \<and> (\<forall>k. filter (\<lambda>a. dayTime E (day a) = k) res
                        = filter (\<lambda>a. dayTime E (day a) = k)
                            (concat (map responseRecords (settledValues (map (teamMetricsPromise E cfg f) ts)))))))
       \<and> (\<not> list_all fulfilledOK (map (teamMetricsPromise E cfg f) ts) \<longrightarrow>
            \<not> isOK (getCopilotTeamsMetricsFromApi E f))
       \<and> (\<not> list_all fulfilledOK (map (teamMetricsPromise E cfg f) ts)
           \<and> \<not> list_ex isRejected (map (teamMetricsPromise E cfg f) ts) \<longrightarrow>
            find (\<lambda>r. \<not> isOK r) (settledValues (map (teamMetricsPromise E cfg f) ts))
              = Some (getCopilotTeamsMetricsFromApi E f))
       \<and> (list_ex isRejected (map (teamMetricsPromise E cfg f) ts) \<longrightarrow>
            (\<exists>p \<in> set (map (teamMetricsPromise E cfg f) ts).
                isRejected p
              \<and> (\<forall>q \<in> set (map (teamMetricsPromise E cfg f) ts). isRejected q \<longrightarrow> fst p \<le> fst q)
              \<and> getCopilotTeamsMetricsFromApi E f
                  = (case unknownResponseError E (rejectionReason p) of (st, errs) \<Rightarrow> Failure st errs)))"
    (is "(?allok \<longrightarrow> ?A) \<and> (\<not> ?allok \<longrightarrow> ?B) \<and> (\<not> ?allok \<and> \<not> ?rej \<longrightarrow> ?C) \<and> (?rej \<longrightarrow> ?D)")
proof -
  let ?ps = "map (teamMetricsPromise E cfg f) ts"
  have unf: "getCopilotTeamsMetricsFromApi E f =
      (case promise_all ?ps of
         Inl e \<Rightarrow> (case unknownResponseError E e of (st, errs) \<Rightarrow> Failure st errs)
       | Inr teamMetricsResults \<Rightarrow>
           (case filter (\<lambda>result. \<not> isOK result) teamMetricsResults of
              failed # others \<Rightarrow> failed
            | [] \<Rightarrow> OK (sort_key (\<lambda>a. dayTime E (day a)) (concat (map responseRecords teamMetricsResults)))))"
    using env tm ne by (simp add: getCopilotTeamsMetricsFromApi_def)
  have A: ?A if ok: ?allok
  proof -
    have "getCopilotTeamsMetricsFromApi E f =
        OK (sort_key (\<lambda>a. dayTime E (day a)) (concat (map responseRecords (settledValues ?ps))))"
      using ok by (simp add: unf promise_all_fulfilled fulfilledOK_not_rejected fulfilledOK_values)
    then show ?thesis by (simp add: sort_key_stable)
  qed
  have D: ?D if rj: ?rej
  proof -
    from promise_all_rejected[OF rj] obtain p where p: "p \<in> set ?ps" "isRejected p"
      "\<forall>q \<in> set ?ps. isRejected q \<longrightarrow> fst p \<le> fst q" "promise_all ?ps = Inl (rejectionReason p)"
      by blast
    have "getCopilotTeamsMetricsFromApi E f
        = (case unknownResponseError E (rejectionReason p) of (st, errs) \<Rightarrow> Failure st errs)"
      by (simp add: unf p(4))
    with p show ?thesis by blast
  qed
  have C: ?C if nok: "\<not> ?allok" and nrj: "\<not> ?rej"
  proof -
    from not_all_OK_values[OF nrj nok] obtain r where
      r: "find (\<lambda>r. \<not> isOK r) (settledValues ?ps) = Some r" by blast
    from find_filter_hd[OF r] obtain rs where "filter (\<lambda>r. \<not> isOK r) (settledValues ?ps) = r # rs" ..
    then have "getCopilotTeamsMetricsFromApi E f = r"
      using nrj by (simp add: unf promise_all_fulfilled)
    with r show ?thesis by simp
  qed
  have B: ?B if nok: "\<not> ?allok"
  proof (cases ?rej)
    case True
    from promise_all_rejected[OF True] obtain p where "p \<in> set ?ps" and "promise_all ?ps = Inl (rejectionReason p)"
      by blast
    then have "getCopilotTeamsMetricsFromApi E f
         = (case unknownResponseError E (rejectionReason p) of (st, errs) \<Rightarrow> Failure st errs)"
      by (simp add: unf)
    then show ?thesis by (cases "unknownResponseError E (rejectionReason p)") simp
  next
    case False
    from not_all_OK_values[OF False nok] C[OF nok False] show ?thesis by auto
  qed
  from A B C D show ?thesis by blast
qed


theorem teams_metrics_all_or_nothing_witness:
  "ensureGitHubEnvConfig example_metrics_env = OK example_config
   \<and> team (example_teams_filter [''t1'', ''t2'']) = Some [''t1'', ''t2'']
   \<and> getCopilotTeamsMetricsFromApi example_metrics_env (example_teams_filter [''t1'', ''t2''])
       = Failure ''NOT_FOUND'' [''o/team/t2'']
   \<and> getCopilotTeamsMetricsFromApi example_metrics_env (example_teams_filter [''t1'', ''t3''])
       = OK [usage_day1, usage_day2]"
  using teams_metrics_all_or_nothing[of example_metrics_env example_config
          "example_teams_filter [''t1'', ''t2'']" "[''t1'', ''t2'']"]
        teams_metrics_all_or_nothing[of example_metrics_env example_config
          "example_teams_filter [''t1'', ''t3'']" "[''t1'', ''t3'']"]
  by (simp add: example_metrics_env_def example_teams_filter_def example_fetch_def
      example_formatResponseError_def example_label_def example_dayTime_def
      getCopilotTeamsMetricsFromApi_def promise_all_def teamMetricsPromise_def
      fetchCopilotMetrics_def queryString_def usage_day1_def usage_day2_def)

subsection \<open>Dashboard filter state\<close>

lemma applyFilters_frame [simp]:
  "languages (applyFilters E st) = languages st"
  "editors (applyFilters E st) = editors st"
  "teams (applyFilters E st) = teams st"
  "timeFrame (applyFilters E st) = timeFrame st"
  "hideWeekends (applyFilters E st) = hideWeekends st"
  "isLoading (applyFilters E st) = isLoading st"
  "seatsData (applyFilters E st) = seatsData st"
  "teamsData (applyFilters E st) = teamsData st"
  "apiData (applyFilters E st) = apiData st"
  "hasPendingTeamChanges (applyFilters E st) = hasPendingTeamChanges st"
  "currentFilter (applyFilters E st) = currentFilter st"
  by (simp_all add: applyFilters_def Let_def)

lemma applyFilters_eq: "applyFilters E st = st\<lparr>filteredData := filteredData (applyFilters E st)\<rparr>"
  by (simp add: applyFilters_def Let_def)

lemma filteredData_applyFilters_cong:
  assumes "apiData s = apiData t" "languages s = languages t" "editors s = editors t"
    "timeFrame s = timeFrame t" "hideWeekends s = hideWeekends t"
  shows "filteredData (applyFilters E s) = filteredData (applyFilters E t)"
  using assms by (simp add: applyFilters_def Let_def aggregatedDataByTimeFrame_def)

lemma applyFilters_idem: "applyFilters E (applyFilters E st) = applyFilters E st"
proof -
  have "filteredData (applyFilters E (applyFilters E st)) = filteredData (applyFilters E st)"
    by (rule filteredData_applyFilters_cong) simp_all
  then show ?thesis
    by (metis applyFilters_eq DashboardState.update_convs(1) DashboardState.surjective)
qed

lemma applyFilters_drop_filteredData: "applyFilters E (st\<lparr>filteredData := x\<rparr>) = applyFilters E st"
  by (simp add: applyFilters_def Let_def aggregatedDataByTimeFrame_def)

lemma toggleItem_twice: "toggleItem v (toggleItem v xs) = xs"
  by (induction xs) auto

lemma find_toggleItem:
  "find (\<lambda>i. item_value i = v) (toggleItem v xs)
     = map_option (\<lambda>x. x\<lparr>isSelected := \<not> isSelected x\<rparr>) (find (\<lambda>i. item_value i = v) xs)"
  by (induction xs) auto

lemma find_value_Some: "v \<in> item_value ` set xs \<Longrightarrow> \<exists>x. find (\<lambda>i. item_value i = v) xs = Some x"
  by (induction xs) auto

lemma find_value_None: "v \<notin> item_value ` set xs \<Longrightarrow> find (\<lambda>i. item_value i = v) xs = None"
  by (induction xs) auto

lemma filterLanguage_twice:
  assumes "v \<in> item_value ` set (languages st)"
  shows "filterLanguage E v (filterLanguage E v st) = applyFilters E st"
proof -
  from find_value_Some[OF assms] obtain x where x: "find (\<lambda>i. item_value i = v) (languages st) = Some x" ..
  have 1: "filterLanguage E v st = applyFilters E (st\<lparr>languages := toggleItem v (languages st)\<rparr>)"
    by (simp add: filterLanguage_def x)
  have 2: "find (\<lambda>i. item_value i = v) (languages (filterLanguage E v st)) = Some (x\<lparr>isSelected := \<not> isSelected x\<rparr>)"
    by (simp add: 1 find_toggleItem x)
  have "filterLanguage E v (filterLanguage E v st)
      = applyFilters E ((applyFilters E (st\<lparr>languages := toggleItem v (languages st)\<rparr>))\<lparr>languages := languages st\<rparr>)"
    unfolding filterLanguage_def[of E v "filterLanguage E v st"] 2
    by (simp add: 1 toggleItem_twice)
  also have "\<dots> = applyFilters E (st\<lparr>filteredData := filteredData (applyFilters E (st\<lparr>languages := toggleItem v (languages st)\<rparr>))\<rparr>)"
    by (subst applyFilters_eq[of E "st\<lparr>languages := toggleItem v (languages st)\<rparr>"]) simp
  also have "\<dots> = applyFilters E st" by (rule applyFilters_drop_filteredData)
  finally show ?thesis .
qed

lemma filterEditor_twice:
  assumes "v \<in> item_value ` set (editors st)"
  shows "filterEditor E v (filterEditor E v st) = applyFilters E st"
proof -
  from find_value_Some[OF assms] obtain x where x: "find (\<lambda>i. item_value i = v) (editors st) = Some x" ..
  have 1: "filterEditor E v st = applyFilters E (st\<lparr>editors := toggleItem v (editors st)\<rparr>)"
    by (simp add: filterEditor_def x)
  have 2: "find (\<lambda>i. item_value i = v) (editors (filterEditor E v st)) = Some (x\<lparr>isSelected := \<not> isSelected x\<rparr>)"
    by (simp add: 1 find_toggleItem x)
  have "filterEditor E v (filterEditor E v st)
      = applyFilters E ((applyFilters E (st\<lparr>editors := toggleItem v (editors st)\<rparr>))\<lparr>editors := editors st\<rparr>)"
    unfolding filterEditor_def[of E v "filterEditor E v st"] 2
    by (simp add: 1 toggleItem_twice)
  also have "\<dots> = applyFilters E (st\<lparr>filteredData := filteredData (applyFilters E (st\<lparr>editors := toggleItem v (editors st)\<rparr>))\<rparr>)"
    by (subst applyFilters_eq[of E "st\<lparr>editors := toggleItem v (editors st)\<rparr>"]) simp
  also have "\<dots> = applyFilters E st" by (rule applyFilters_drop_filteredData)
  finally show ?thesis .
qed

lemma applyFilters_fixed: "filteredData st = filteredData (applyFilters E st) \<Longrightarrow> applyFilters E st = st"
  by (subst applyFilters_eq) simp

lemma clearSelected_none: "filter isSelected (clearSelected xs) = []"
  by (induction xs) (auto simp: clearSelected_def)

lemma clearSelected_all: "list_all (\<lambda>i. \<not> isSelected i) (clearSelected xs)"
  by (induction xs) (auto simp: clearSelected_def)

lemma clearSelected_values: "map item_value (clearSelected xs) = map item_value xs"
  by (simp add: clearSelected_def)

lemma filteredData_no_selection:
  assumes "filter isSelected (languages st) = []" and "filter isSelected (editors st) = []"
  shows "filteredData (applyFilters E st)
           = filter hasBreakdown (aggregatedDataByTimeFrame E st (hideWeekends st))"
  using assms by (simp add: applyFilters_def Let_def)

lemma aggregated_cong:
  "apiData s = apiData t \<Longrightarrow> timeFrame s = timeFrame t \<Longrightarrow>
     aggregatedDataByTimeFrame E s h = aggregatedDataByTimeFrame E t h"
  by (simp add: aggregatedDataByTimeFrame_def Let_def)

lemma reset_sync_fields:
  "languages (resetAllFilters_sync E st) = clearSelected (languages st)"
  "editors (resetAllFilters_sync E st) = clearSelected (editors st)"
  "teams (resetAllFilters_sync E st) = clearSelected (teams st)"
  "hideWeekends (resetAllFilters_sync E st) = False"
  "hasPendingTeamChanges (resetAllFilters_sync E st) = False"
  "apiData (resetAllFilters_sync E st) = apiData st"
  "timeFrame (resetAllFilters_sync E st) = timeFrame st"
  by (simp_all add: resetAllFilters_sync_def)

lemma reset_sync_filteredData:
  "filteredData (resetAllFilters_sync E st)
     = filter hasBreakdown (aggregatedDataByTimeFrame E (resetAllFilters_sync E st) False)"
proof -
  let ?c = "st\<lparr>languages := clearSelected (languages st), editors := clearSelected (editors st),
               teams := clearSelected (teams st), hideWeekends := False,
               hasPendingTeamChanges := False\<rparr>"
  have "filteredData (applyFilters E ?c) = filter hasBreakdown (aggregatedDataByTimeFrame E ?c (hideWeekends ?c))"
    by (rule filteredData_no_selection) (simp_all add: clearSelected_none)
  also have "aggregatedDataByTimeFrame E ?c (hideWeekends ?c)
           = aggregatedDataByTimeFrame E (resetAllFilters_sync E st) False"
    by (simp add: aggregated_cong[of ?c "resetAllFilters_sync E st"] reset_sync_fields)
  finally show ?thesis by (simp add: resetAllFilters_sync_def)
qed

text \<open>
  C4, as the specification words it, fails: even with no filter chosen the state keeps
  only the rows that have a breakdown entry. After a load of one day without breakdown
  entries, in the daily view, the reset leaves \<open>filteredData\<close> empty, while the time-bucketed
  dataset derived from \<open>apiData\<close> has the row of that day.
\<close>

theorem reset_drops_empty_rows_counterexample:
  "filteredData (resetAllFilters_sync example_dashboard_env sparse_state) = []
   \<and> map day (aggregatedDataByTimeFrame example_dashboard_env
                 (resetAllFilters_sync example_dashboard_env sparse_state) False)
       = [''2024-01-03'']"
  by code_simp

text \<open>
  C4, amended. Whatever the state was, after the part of \<open>resetAllFilters\<close> that runs before
  its \<^verbatim>\<open>await\<close> every item of the three collections is unselected (the values of the
  items are those of before), the weekend flag and the pending flag are cleared, \<open>apiData\<close>
  is as before, and \<open>filteredData\<close> is the time-bucketed dataset derived from \<open>apiData\<close> with
  no weekend, language or editor filter, less the rows whose breakdown is empty. The method
  then sets the loading flag and calls the two server actions once, with the empty list of
  teams.
\<close>

theorem reset_all_filters:
  "(let s = resetAllFilters_sync E st in
      list_all (\<lambda>i. \<not> isSelected i) (languages s)
    \<and> list_all (\<lambda>i. \<not> isSelected i) (editors s)
    \<and> list_all (\<lambda>i. \<not> isSelected i) (teams s)
    \<and> map item_value (languages s) = map item_value (languages st)
    \<and> map item_value (editors s) = map item_value (editors st)
    \<and> map item_value (teams s) = map item_value (teams st)
    \<and> \<not> hideWeekends s \<and> \<not> hasPendingTeamChanges s
    \<and> apiData s = apiData st
    \<and> filteredData s = filter hasBreakdown (aggregatedDataByTimeFrame E s False)
    \<and> stateLeft (resetAllFilters E st) = s\<lparr>isLoading := True\<rparr>
    \<and> (\<exists>m q. issued (resetAllFilters E st) = [(m, q)] \<and> rm_teams m = Some [] \<and> rs_teams q = Some []))"
proof -
  have "stateLeft (resetAllFilters E st) = (resetAllFilters_sync E st)\<lparr>isLoading := True\<rparr>"
    by (simp add: resetAllFilters_def refreshDataWithTeams_def Let_def)
  moreover have "\<exists>m q. issued (resetAllFilters E st) = [(m, q)] \<and> rm_teams m = Some [] \<and> rs_teams q = Some []"
    by (simp add: resetAllFilters_def refreshDataWithTeams_def Let_def)
  ultimately show ?thesis
    using reset_sync_filteredData[of E st]
    by (simp add: Let_def reset_sync_fields clearSelected_all clearSelected_values)
qed

text \<open>
  C8, as the specification words it, fails at a state whose \<open>filteredData\<close> is not what the
  filters of the state give. Such a state is reached by loading the page, choosing the
  language \<open>python\<close> and loading again: \<open>initData\<close> recomputes \<open>filteredData\<close> with the old
  selection and then rebuilds the collection unselected. There, toggling \<open>java\<close> twice
  leaves both days in \<open>filteredData\<close>, where one was before.
\<close>

theorem toggle_twice_stale_counterexample:
  "''java'' \<in> item_value ` set (languages reloaded_state)
   \<and> map day (filteredData reloaded_state) = [''2024-01-01'']
   \<and> map day (filteredData (filterLanguage example_dashboard_env ''java''
                  (filterLanguage example_dashboard_env ''java'' reloaded_state)))
       = [''2024-01-01'', ''2024-01-02'']"
  by code_simp

text \<open>
  C8, amended. For every state and every value present in the collection, toggling a
  language (or an editor) twice gives the state that recomputing the filters gives from the
  state before; so it restores \<open>filteredData\<close>, and the whole state, whenever \<open>filteredData\<close>
  was what the filters of the state give (as it is after any filter operation or refresh).
\<close>

theorem toggle_twice:
  "(v \<in> item_value ` set (languages st) \<longrightarrow>
      filterLanguage E v (filterLanguage E v st) = applyFilters E st
    \<and> (filteredData st = filteredData (applyFilters E st) \<longrightarrow>
         filteredData (filterLanguage E v (filterLanguage E v st)) = filteredData st
       \<and> filterLanguage E v (filterLanguage E v st) = st))
   \<and> (v \<in> item_value ` set (editors st) \<longrightarrow>
      filterEditor E v (filterEditor E v st) = applyFilters E st
    \<and> (filteredData st = filteredData (applyFilters E st) \<longrightarrow>
         filteredData (filterEditor E v (filterEditor E v st)) = filteredData st
       \<and> filterEditor E v (filterEditor E v st) = st))"
proof -
  have l: "filterLanguage E v (filterLanguage E v st) = applyFilters E st"
    if "v \<in> item_value ` set (languages st)"
    using that by (rule filterLanguage_twice)
  have e: "filterEditor E v (filterEditor E v st) = applyFilters E st"
    if "v \<in> item_value ` set (editors st)"
    using that by (rule filterEditor_twice)
  have f: "applyFilters E st = st" if "filteredData st = filteredData (applyFilters E st)"
    using that by (rule applyFilters_fixed)
  show ?thesis using l e f by simp
qed

theorem toggle_twice_witness:
  "''java'' \<in> item_value ` set (languages loaded_state)
   \<and> filteredData loaded_state = filteredData (applyFilters example_dashboard_env loaded_state)
   \<and> filterLanguage example_dashboard_env ''java''
        (filterLanguage example_dashboard_env ''java'' loaded_state) = loaded_state"
proof -
  have 1: "''java'' \<in> item_value ` set (languages loaded_state)" by code_simp
  have 2: "filteredData loaded_state = filteredData (applyFilters example_dashboard_env loaded_state)"
    by code_simp
  from toggle_twice[of "''java''" loaded_state example_dashboard_env] 1 2 show ?thesis by simp
qed

text \<open>
  C10. \<open>filterTeam\<close> with a value that no item of the teams collection has leaves the
  state as it is: no flag flips, \<open>filteredData\<close> is not recomputed, the pending flag is not
  set. If the flag was not set, closing the dropdown then calls no server action.
\<close>

theorem filterTeam_absent:
  assumes "v \<notin> item_value ` set (teams st)"
  shows "filterTeam E v st = st
       \<and> (\<not> hasPendingTeamChanges st \<longrightarrow>
            refreshTeamDataIfNeeded E (filterTeam E v st) = Done st
          \<and> issued (refreshTeamDataIfNeeded E (filterTeam E v st)) = [])"
  using find_value_None[OF assms]
  by (simp add: filterTeam_def refreshTeamDataIfNeeded_def)

theorem filterTeam_absent_witness:
  "''gamma'' \<notin> item_value ` set (teams team_state)
   \<and> \<not> hasPendingTeamChanges team_state
   \<and> filterTeam example_dashboard_env ''gamma'' team_state = team_state
   \<and> refreshTeamDataIfNeeded example_dashboard_env (filterTeam example_dashboard_env ''gamma'' team_state)
       = Done team_state"
proof -
  have 1: "''gamma'' \<notin> item_value ` set (teams team_state)" by code_simp
  have 2: "\<not> hasPendingTeamChanges team_state" by code_simp
  from filterTeam_absent[OF 1, of example_dashboard_env] 1 2 show ?thesis by blast
qed

subsection \<open>Refresh protocol\<close>



lemma applySeatsResult_frame [simp]:
  "apiData (applySeatsResult s st) = apiData st"
  "languages (applySeatsResult s st) = languages st"
  "editors (applySeatsResult s st) = editors st"
  "teams (applySeatsResult s st) = teams st"
  "filteredData (applySeatsResult s st) = filteredData st"
  "timeFrame (applySeatsResult s st) = timeFrame st"
  "hideWeekends (applySeatsResult s st) = hideWeekends st"
  "isLoading (applySeatsResult s st) = isLoading st"
  "hasPendingTeamChanges (applySeatsResult s st) = hasPendingTeamChanges st"
  by (simp_all add: applySeatsResult_def split: option.splits)

lemma applyMetricsResult_seatsData [simp]: "seatsData (applyMetricsResult E m st) = seatsData st"
  by (simp add: applyMetricsResult_def Let_def split: option.splits)

lemma resume_refresh [simp]:
  "resume (refreshDataWithTeams E sel st0) out st = refreshDataWithTeams_resume E out st"
  by (simp add: refreshDataWithTeams_def Let_def)


lemma refreshSeatsData_success:
  "sr_success (refreshSeatsData g a) = (\<exists>resp. g (toSeatServiceFilter a) = Inr (OK resp))"
  by (simp add: refreshSeatsData_def Let_def split: sum.splits ServerActionResponse.splits)


lemma sf_team_scopedFilter [simp]: "sf_team (scopedFilter SE cfg f) = sf_team f"
  by (simp add: scopedFilter_def)







lemma resume_result:
  "fst (refreshDataWithTeams_resume E out s) = Fulfilled"
  "isLoading (snd (refreshDataWithTeams_resume E out s)) = False"
  by (simp_all add: refreshDataWithTeams_resume_def Let_def)

lemma refreshDataWithTeams_left [simp]:
  "stateLeft (refreshDataWithTeams E sel st) = st\<lparr>isLoading := True\<rparr>"
  by (simp add: refreshDataWithTeams_def Let_def)

lemma refreshDataWithTeams_issued:
  "\<exists>m q. issued (refreshDataWithTeams E sel st) = [(m, q)] \<and> rm_teams m = Some sel \<and> rs_teams q = Some sel"
  by (simp add: refreshDataWithTeams_def Let_def)

lemma andThen_reads [simp]:
  "stateLeft (andThen t f) = (case t of Done s \<Rightarrow> f s | Await s m q k \<Rightarrow> s)"
  "issued (andThen t f) = issued t"
  by (cases t; simp)+

lemma catching_reads [simp]:
  "stateLeft (catching t) = stateLeft t"
  "issued (catching t) = issued t"
  by (cases t; simp)+

lemma pending_refresh:
  assumes "hasPendingTeamChanges st"
  shows "stateLeft (refreshTeamDataIfNeeded E st) = st\<lparr>isLoading := True\<rparr>"
    and "\<exists>m q. issued (refreshTeamDataIfNeeded E st) = [(m, q)]
            \<and> rm_teams m = Some (map item_value (filter isSelected (teams st)))
            \<and> rs_teams q = Some (map item_value (filter isSelected (teams st)))"
    and "resume (refreshTeamDataIfNeeded E st) out s
           = (Fulfilled, (snd (refreshDataWithTeams_resume E out s))\<lparr>hasPendingTeamChanges := False\<rparr>)"
  using assms
  by (simp_all add: refreshTeamDataIfNeeded_def Let_def refreshDataWithTeams_def
      refreshDataWithTeams_resume_def)

lemma reset_resume:
  "resume (resetAllFilters E st) out s = refreshDataWithTeams_resume E out s"
  by (simp add: resetAllFilters_def refreshDataWithTeams_def Let_def refreshDataWithTeams_resume_def)

lemma filterTeam_present:
  assumes "v \<in> item_value ` set (teams st)"
  shows "filterTeam E v st = (applyFilters E (st\<lparr>teams := toggleItem v (teams st)\<rparr>))\<lparr>hasPendingTeamChanges := True\<rparr>"
  using find_value_Some[OF assms] by (auto simp: filterTeam_def)

text \<open>
  C6. \<open>refreshDataWithTeams\<close> leaves the state with the loading flag set (and nothing else
  changed) when it suspends, and whatever the outcome it is resumed with (two results, or
  a thrown error) and whatever the state is then, it is fulfilled with the loading flag
  cleared. So are \<open>refreshTeamDataIfNeeded\<close> with the pending flag set, which calls the
  server actions once, with the values of the selected teams, and clears the pending flag
  at the end, and \<open>resetAllFilters\<close>. Toggling a team that is in the collection sets the
  pending flag and leaves the loading flag as it is.
\<close>

theorem loading_flag_cleared:
  "stateLeft (refreshDataWithTeams E sel st) = st\<lparr>isLoading := True\<rparr>
   \<and> fst (resume (refreshDataWithTeams E sel st) out s) = Fulfilled
   \<and> \<not> isLoading (snd (resume (refreshDataWithTeams E sel st) out s))
   \<and> (hasPendingTeamChanges st \<longrightarrow>
         stateLeft (refreshTeamDataIfNeeded E st) = st\<lparr>isLoading := True\<rparr>
       \<and> (\<exists>m q. issued (refreshTeamDataIfNeeded E st) = [(m, q)]
               \<and> rm_teams m = Some (map item_value (filter isSelected (teams st)))
               \<and> rs_teams q = Some (map item_value (filter isSelected (teams st))))
       \<and> fst (resume (refreshTeamDataIfNeeded E st) out s) = Fulfilled
       \<and> \<not> isLoading (snd (resume (refreshTeamDataIfNeeded E st) out s))
       \<and> \<not> hasPendingTeamChanges (snd (resume (refreshTeamDataIfNeeded E st) out s)))
   \<and> (v \<in> item_value ` set (teams st) \<longrightarrow>
         hasPendingTeamChanges (filterTeam E v st)
       \<and> teams (filterTeam E v st) = toggleItem v (teams st)
       \<and> isLoading (filterTeam E v st) = isLoading st)
   \<and> stateLeft (resetAllFilters E st) = (resetAllFilters_sync E st)\<lparr>isLoading := True\<rparr>
   \<and> fst (resume (resetAllFilters E st) out s) = Fulfilled
   \<and> \<not> isLoading (snd (resume (resetAllFilters E st) out s))"
proof -
  have a: "hasPendingTeamChanges st \<Longrightarrow>
         stateLeft (refreshTeamDataIfNeeded E st) = st\<lparr>isLoading := True\<rparr>
       \<and> (\<exists>m q. issued (refreshTeamDataIfNeeded E st) = [(m, q)]
               \<and> rm_teams m = Some (map item_value (filter isSelected (teams st)))
               \<and> rs_teams q = Some (map item_value (filter isSelected (teams st))))
       \<and> fst (resume (refreshTeamDataIfNeeded E st) out s) = Fulfilled
       \<and> \<not> isLoading (snd (resume (refreshTeamDataIfNeeded E st) out s))
       \<and> \<not> hasPendingTeamChanges (snd (resume (refreshTeamDataIfNeeded E st) out s))"
    using pending_refresh[of st E] by (simp add: resume_result)
  have b: "v \<in> item_value ` set (teams st) \<Longrightarrow>
         hasPendingTeamChanges (filterTeam E v st)
       \<and> teams (filterTeam E v st) = toggleItem v (teams st)
       \<and> isLoading (filterTeam E v st) = isLoading st"
    by (simp add: filterTeam_present)
  have c: "stateLeft (resetAllFilters E st) = (resetAllFilters_sync E st)\<lparr>isLoading := True\<rparr>"
    by (simp add: resetAllFilters_def)
  show ?thesis using a b c by (simp add: resume_result reset_resume)
qed

theorem loading_flag_cleared_witness:
  "''alpha'' \<in> item_value ` set (teams team_state)
   \<and> \<not> isLoading (filterTeam example_dashboard_env ''alpha'' team_state)
   \<and> hasPendingTeamChanges (filterTeam example_dashboard_env ''alpha'' team_state)
   \<and> isLoading (stateLeft (refreshTeamDataIfNeeded example_dashboard_env
                              (filterTeam example_dashboard_env ''alpha'' team_state)))
   \<and> map (\<lambda>(m, q). rm_teams m)
        (issued (refreshTeamDataIfNeeded example_dashboard_env
                   (filterTeam example_dashboard_env ''alpha'' team_state)))
       = [Some [''alpha'']]
   \<and> \<not> isLoading (snd (resume (refreshTeamDataIfNeeded example_dashboard_env
                                    (filterTeam example_dashboard_env ''alpha'' team_state))
                           outcome_metrics_failed
                           (stateLeft (refreshTeamDataIfNeeded example_dashboard_env
                              (filterTeam example_dashboard_env ''alpha'' team_state)))))"
proof -
  let ?st = "filterTeam example_dashboard_env ''alpha'' team_state"
  have v: "''alpha'' \<in> item_value ` set (teams team_state)" by code_simp
  have i: "\<not> isLoading team_state" by code_simp
  have t: "map item_value (filter isSelected (toggleItem ''alpha'' (teams team_state))) = [''alpha'']"
    by code_simp
  note th = loading_flag_cleared[of example_dashboard_env "[]" ?st outcome_metrics_failed
      "stateLeft (refreshTeamDataIfNeeded example_dashboard_env ?st)" "''alpha''"]
  note th0 = loading_flag_cleared[of example_dashboard_env "[]" team_state outcome_metrics_failed
      team_state "''alpha''"]
  from th0 v have p: "hasPendingTeamChanges ?st" and tt: "teams ?st = toggleItem ''alpha'' (teams team_state)"
    and l: "isLoading ?st = isLoading team_state"
    by blast+
  from th p have
    1: "stateLeft (refreshTeamDataIfNeeded example_dashboard_env ?st) = ?st\<lparr>isLoading := True\<rparr>"
    and 2: "\<exists>m q. issued (refreshTeamDataIfNeeded example_dashboard_env ?st) = [(m, q)]
               \<and> rm_teams m = Some (map item_value (filter isSelected (teams ?st)))
               \<and> rs_teams q = Some (map item_value (filter isSelected (teams ?st)))"
    and 3: "\<not> isLoading (snd (resume (refreshTeamDataIfNeeded example_dashboard_env ?st)
              outcome_metrics_failed (stateLeft (refreshTeamDataIfNeeded example_dashboard_env ?st))))"
    by blast+
  from 2 tt t have 4: "map (\<lambda>(m, q). rm_teams m) (issued (refreshTeamDataIfNeeded example_dashboard_env ?st))
       = [Some [''alpha'']]"
    by auto
  have 5: "isLoading (stateLeft (refreshTeamDataIfNeeded example_dashboard_env ?st))"
    by (simp add: 1)
  show ?thesis using v i l p 3 4 5 by (simp only: simp_thms)
qed

lemma pushUnique_unselected:
  "list_all (\<lambda>i. \<not> isSelected i) xs \<Longrightarrow> list_all (\<lambda>i. \<not> isSelected i) (pushUnique xs v)"
  by (simp add: pushUnique_def)

lemma pushTeam_unselected:
  "list_all (\<lambda>i. \<not> isSelected i) xs \<Longrightarrow> list_all (\<lambda>i. \<not> isSelected i) (pushTeam xs t)"
  by (simp add: pushTeam_def pushUnique_unselected split: option.splits)

lemma foldl_pushTeam_unselected:
  "list_all (\<lambda>i. \<not> isSelected i) xs \<Longrightarrow> list_all (\<lambda>i. \<not> isSelected i) (foldl pushTeam xs ts)"
  by (induction ts arbitrary: xs) (simp_all add: pushTeam_unselected)

lemma sortItems_all: "list_all P (sortItems E xs) = list_all P xs"
  by (simp add: sortItems_def list_all_iff)

lemma extractUniqueTeams_unselected: "list_all (\<lambda>i. \<not> isSelected i) (extractUniqueTeams E st)"
  by (simp add: extractUniqueTeams_def sortItems_all foldl_pushTeam_unselected)

lemma extractUniqueTeams_cong:
  "teamsData s = teamsData t \<Longrightarrow> extractUniqueTeams E s = extractUniqueTeams E t"
  by (simp add: extractUniqueTeams_def)

lemma restoreSelections_values: "map item_value (restoreSelections prev ts) = map item_value ts"
  by (induction ts) (simp_all add: restoreSelections_def split: option.splits)

lemma restoreSelections_flags:
  "list_all (\<lambda>i. \<not> isSelected i) ts \<Longrightarrow>
     list_all (\<lambda>t. isSelected t = (case find (\<lambda>p. item_value p = item_value t) prev of
                                     None \<Rightarrow> False | Some p \<Rightarrow> isSelected p))
       (restoreSelections prev ts)"
  by (induction ts) (simp_all add: restoreSelections_def split: option.splits)

lemma applyMetricsResult_success:
  assumes "mr_success m" and "mr_data m = Some d"
  shows "apiData (applyMetricsResult E m st) = d"
    and "teams (applyMetricsResult E m st) = restoreSelections (teams st) (extractUniqueTeams E st)"
    and "languages (applyMetricsResult E m st) = extractUniqueLanguages E (st\<lparr>apiData := d\<rparr>)"
    and "editors (applyMetricsResult E m st) = extractUniqueEditors E (st\<lparr>apiData := d\<rparr>)"
    and "filteredData (applyMetricsResult E m st)
           = filteredData (applyFilters E (applyMetricsResult E m st))"
    and "timeFrame (applyMetricsResult E m st) = timeFrame st"
    and "hideWeekends (applyMetricsResult E m st) = hideWeekends st"
proof -
  let ?s5 = "st\<lparr>apiData := d,
                 languages := extractUniqueLanguages E (st\<lparr>apiData := d\<rparr>),
                 editors := extractUniqueEditors E (st\<lparr>apiData := d\<rparr>),
                 teams := restoreSelections (teams st) (extractUniqueTeams E st)\<rparr>"
  have e: "applyMetricsResult E m st = applyFilters E ?s5"
    using assms
    by (simp add: applyMetricsResult_def Let_def extractUniqueLanguages_def
        extractUniqueEditors_def extractUniqueTeams_def)
  show "apiData (applyMetricsResult E m st) = d"
    and "teams (applyMetricsResult E m st) = restoreSelections (teams st) (extractUniqueTeams E st)"
    and "languages (applyMetricsResult E m st) = extractUniqueLanguages E (st\<lparr>apiData := d\<rparr>)"
    and "editors (applyMetricsResult E m st) = extractUniqueEditors E (st\<lparr>apiData := d\<rparr>)"
    and "timeFrame (applyMetricsResult E m st) = timeFrame st"
    and "hideWeekends (applyMetricsResult E m st) = hideWeekends st"
    by (simp_all add: e)
  show "filteredData (applyMetricsResult E m st)
           = filteredData (applyFilters E (applyMetricsResult E m st))"
    by (simp add: e applyFilters_idem)
qed

lemma foldl_pushUnique_unselected:
  "list_all (\<lambda>i. \<not> isSelected i) xs \<Longrightarrow> list_all (\<lambda>i. \<not> isSelected i) (foldl pushUnique xs vs)"
  by (induction vs arbitrary: xs) (simp_all add: pushUnique_unselected)

lemma extractUnique_unselected:
  "list_all (\<lambda>i. \<not> isSelected i) (extractUniqueLanguages E st)"
  "list_all (\<lambda>i. \<not> isSelected i) (extractUniqueEditors E st)"
  by (simp_all add: extractUniqueLanguages_def extractUniqueEditors_def sortItems_all
      foldl_pushUnique_unselected)

lemma filter_isSelected_unselected:
  "list_all (\<lambda>i. \<not> isSelected i) xs \<Longrightarrow> filter isSelected xs = []"
  by (induction xs) simp_all

lemma applyMetricsResult_filteredData:
  assumes "mr_success m" and "mr_data m = Some d"
  shows "filteredData (applyMetricsResult E m st)
           = filter hasBreakdown (aggregatedDataByTimeFrame E (st\<lparr>apiData := d\<rparr>) (hideWeekends st))"
proof -
  let ?s5 = "st\<lparr>apiData := d,
                 languages := extractUniqueLanguages E (st\<lparr>apiData := d\<rparr>),
                 editors := extractUniqueEditors E (st\<lparr>apiData := d\<rparr>),
                 teams := restoreSelections (teams st) (extractUniqueTeams E st)\<rparr>"
  have e: "applyMetricsResult E m st = applyFilters E ?s5"
    using assms
    by (simp add: applyMetricsResult_def Let_def extractUniqueLanguages_def
        extractUniqueEditors_def extractUniqueTeams_def)
  have "filteredData (applyFilters E ?s5)
          = filter hasBreakdown (aggregatedDataByTimeFrame E ?s5 (hideWeekends ?s5))"
    by (rule filteredData_no_selection)
       (simp_all add: filter_isSelected_unselected extractUnique_unselected)
  also have "aggregatedDataByTimeFrame E ?s5 (hideWeekends ?s5)
           = aggregatedDataByTimeFrame E (st\<lparr>apiData := d\<rparr>) (hideWeekends st)"
    by (simp add: aggregated_cong[of ?s5 "st\<lparr>apiData := d\<rparr>"])
  finally show ?thesis by (simp only: e)
qed

text \<open>
  C7, as the specification words it, fails: the teams collection is not rebuilt from the
  data the refresh has fetched. With the stored team list \<open>beta\<close>, \<open>alpha\<close>, a refresh that
  brings the first day and a seat assigned through team \<open>x\<close> and a refresh that brings the
  second day and a seat assigned through team \<open>y\<close> both leave the collection with \<open>beta\<close> and
  \<open>alpha\<close>; with an empty stored list the first of them leaves the collection empty.
\<close>

theorem refresh_teams_from_stored_list_counterexample:
  "map item_value
     (teams (snd (resume (refreshDataWithTeams example_dashboard_env [] team_state)
                    outcome_fresh_x (team_state\<lparr>isLoading := True\<rparr>))))
     = [''beta'', ''alpha'']
   \<and> map item_value
     (teams (snd (resume (refreshDataWithTeams example_dashboard_env [] team_state)
                    outcome_fresh_y (team_state\<lparr>isLoading := True\<rparr>))))
     = [''beta'', ''alpha'']
   \<and> map item_value
     (teams (snd (resume (refreshDataWithTeams example_dashboard_env [] loaded_state)
                    outcome_fresh_x (loaded_state\<lparr>isLoading := True\<rparr>))))
     = []"
  by code_simp

text \<open>
  C7, amended. When the metrics half succeeds, \<open>apiData\<close> is the data received; the
  languages and editors are extracted from it, all unselected; the stored team list is as
  before, and the teams collection is rebuilt from it: it has the values of the named teams
  of the stored list, each once, in collation order, and each of its items has the selection
  flag of the first item of that value in the collection of before, and is unselected if
  there was none; \<open>filteredData\<close> is then recomputed: it is the time-bucketed dataset derived
  from the data received, under the weekend flag of the state, less the rows whose breakdown
  is empty.
\<close>

theorem refresh_preserves_team_selection:
  assumes "mr_success m" and "mr_data m = Some d"
  shows "(let s' = snd (resume (refreshDataWithTeams E sel st0) (Resolved m sres) st) in
            apiData s' = d
          \<and> languages s' = extractUniqueLanguages E (st\<lparr>apiData := d\<rparr>)
          \<and> editors s' = extractUniqueEditors E (st\<lparr>apiData := d\<rparr>)
          \<and> list_all (\<lambda>i. \<not> isSelected i) (languages s')
          \<and> list_all (\<lambda>i. \<not> isSelected i) (editors s')
          \<and> teamsData s' = teamsData st
          \<and> map item_value (teams s') = map item_value (sortItems E (foldl pushTeam [] (teamsData st)))
          \<and> list_all (\<lambda>t. isSelected t = (case find (\<lambda>p. item_value p = item_value t) (teams st) of
                                            None \<Rightarrow> False | Some p \<Rightarrow> isSelected p)) (teams s')
          \<and> filteredData s'
              = filter hasBreakdown
                  (aggregatedDataByTimeFrame E (st\<lparr>apiData := d\<rparr>) (hideWeekends st)))"
proof -
  let ?a = "applyMetricsResult E m st"
  let ?s' = "snd (refreshDataWithTeams_resume E (Resolved m sres) st)"
  have s': "?s' = (applySeatsResult sres ?a)\<lparr>isLoading := False\<rparr>"
    by (simp add: refreshDataWithTeams_resume_def refresh_try_def)
  have g: "filteredData ?s'
             = filter hasBreakdown (aggregatedDataByTimeFrame E (st\<lparr>apiData := d\<rparr>) (hideWeekends st))"
    by (simp add: s' applyMetricsResult_filteredData[OF assms])
  have t: "teams ?s' = restoreSelections (teams st) (extractUniqueTeams E st)"
    by (simp add: s' applyMetricsResult_success(2)[OF assms])
  have td: "teamsData ?s' = teamsData st"
    using assms
    by (simp add: s' applySeatsResult_def applyMetricsResult_def Let_def split: option.splits)
  have h: "apiData ?s' = d"
    "languages ?s' = extractUniqueLanguages E (st\<lparr>apiData := d\<rparr>)"
    "editors ?s' = extractUniqueEditors E (st\<lparr>apiData := d\<rparr>)"
    by (simp_all add: s' applyMetricsResult_success[OF assms])
  have v: "map item_value (teams ?s') = map item_value (sortItems E (foldl pushTeam [] (teamsData st)))"
    by (simp add: t restoreSelections_values extractUniqueTeams_def)
  have f: "list_all (\<lambda>t. isSelected t = (case find (\<lambda>p. item_value p = item_value t) (teams st) of
                                            None \<Rightarrow> False | Some p \<Rightarrow> isSelected p)) (teams ?s')"
    by (simp add: t restoreSelections_flags extractUniqueTeams_unselected)
  show ?thesis
    unfolding Let_def resume_refresh
    using g td v f
    by (simp add: h extractUnique_unselected)
qed

theorem refresh_preserves_team_selection_witness:
  "mr_success (refreshMetricsData example_getMetrics_ok example_metricsArg)
   \<and> mr_data (refreshMetricsData example_getMetrics_ok example_metricsArg) = Some [usage_day1]
   \<and> teams (filterTeam example_dashboard_env ''alpha'' team_state)
       = [\<lparr>item_value = ''beta'', isSelected = False\<rparr>, \<lparr>item_value = ''alpha'', isSelected = True\<rparr>]
   \<and> teams (snd (resume (refreshDataWithTeams example_dashboard_env [''alpha'']
                            (filterTeam example_dashboard_env ''alpha'' team_state))
                  outcome_seats_failed
                  ((filterTeam example_dashboard_env ''alpha'' team_state)\<lparr>isLoading := True\<rparr>)))
       = [\<lparr>item_value = ''beta'', isSelected = False\<rparr>, \<lparr>item_value = ''alpha'', isSelected = True\<rparr>]
   \<and> apiData (snd (resume (refreshDataWithTeams example_dashboard_env [''alpha'']
                            (filterTeam example_dashboard_env ''alpha'' team_state))
                  outcome_seats_failed
                  ((filterTeam example_dashboard_env ''alpha'' team_state)\<lparr>isLoading := True\<rparr>)))
       = [usage_day1]
   \<and> map day (filteredData (snd (resume (refreshDataWithTeams example_dashboard_env [''alpha'']
                            (filterTeam example_dashboard_env ''alpha'' team_state))
                  outcome_seats_failed
                  ((filterTeam example_dashboard_env ''alpha'' team_state)\<lparr>isLoading := True\<rparr>))))
       = [''2024-01-01'']"
proof -
  let ?st = "filterTeam example_dashboard_env ''alpha'' team_state"
  let ?m = "refreshMetricsData example_getMetrics_ok example_metricsArg"
  let ?q = "refreshSeatsData example_getSeats_fails example_seatsArg"
  let ?r = "snd (resume (refreshDataWithTeams example_dashboard_env [''alpha''] ?st)
                  outcome_seats_failed (?st\<lparr>isLoading := True\<rparr>))"
  have a: "mr_success ?m" by code_simp
  have b: "mr_data ?m = Some [usage_day1]" by code_simp
  have c: "teams ?st = [\<lparr>item_value = ''beta'', isSelected = False\<rparr>, \<lparr>item_value = ''alpha'', isSelected = True\<rparr>]"
    by code_simp
  have d: "teams ?r
       = [\<lparr>item_value = ''beta'', isSelected = False\<rparr>, \<lparr>item_value = ''alpha'', isSelected = True\<rparr>]"
    by code_simp
  have g: "map day (filter hasBreakdown
             (aggregatedDataByTimeFrame example_dashboard_env
                (?st\<lparr>isLoading := True, apiData := [usage_day1]\<rparr>)
                (hideWeekends (?st\<lparr>isLoading := True\<rparr>)))) = [''2024-01-01'']"
    by code_simp
  note th = refresh_preserves_team_selection[OF a b, of example_dashboard_env "[''alpha'']" ?st ?q
      "?st\<lparr>isLoading := True\<rparr>"]
  from th have e: "apiData ?r = [usage_day1]"
    by (simp add: Let_def outcome_seats_failed_def)
  from th have f: "filteredData ?r
      = filter hasBreakdown
          (aggregatedDataByTimeFrame example_dashboard_env
             (?st\<lparr>isLoading := True, apiData := [usage_day1]\<rparr>)
             (hideWeekends (?st\<lparr>isLoading := True\<rparr>)))"
    by (simp add: Let_def outcome_seats_failed_def)
  have h: "map day (filteredData ?r) = [''2024-01-01'']" by (simp only: f g)
  show ?thesis using a b c d e h by (simp only: simp_thms)
qed

subsection \<open>The local filter operations on a store\<close>

lemma alloc_all_Cons:
  "fst (alloc_all (v # vs) h) = next_ref h # fst (alloc_all vs (snd (alloc v h)))"
  "snd (alloc_all (v # vs) h) = snd (alloc_all vs (snd (alloc v h)))"
  by (simp_all add: alloc_def split: prod.splits)

lemma alloc_snd [simp]:
  "next_ref (snd (alloc v h)) = Suc (next_ref h)"
  "objs (snd (alloc v h)) a = (if a = next_ref h then v else objs h a)"
  by (simp_all add: alloc_def)

lemma alloc_all_refs: "fst (alloc_all vs h) = [next_ref h ..< next_ref h + length vs]"
proof (induction vs arbitrary: h)
  case Nil
  then show ?case by simp
next
  case (Cons v vs)
  have "fst (alloc_all (v # vs) h) = next_ref h # [Suc (next_ref h) ..< Suc (next_ref h) + length vs]"
    by (simp add: alloc_all_Cons Cons.IH del: upt_Suc alloc_all.simps)
  also have "\<dots> = [next_ref h ..< next_ref h + length (v # vs)]"
    by (simp add: upt_conv_Cons del: upt_Suc)
  finally show ?case .
qed

lemma alloc_all_next: "next_ref (snd (alloc_all vs h)) = next_ref h + length vs"
proof (induction vs arbitrary: h)
  case Nil
  then show ?case by simp
next
  case (Cons v vs)
  then show ?case by (simp add: alloc_all_Cons del: alloc_all.simps)
qed

lemma alloc_all_old: "a < next_ref h \<Longrightarrow> objs (snd (alloc_all vs h)) a = objs h a"
proof (induction vs arbitrary: h)
  case Nil
  then show ?case by simp
next
  case (Cons v vs)
  have "objs (snd (alloc_all vs (snd (alloc v h)))) a = objs (snd (alloc v h)) a"
    by (rule Cons.IH) (simp add: Cons.prems less_Suc_eq)
  with Cons.prems show ?case by (simp add: alloc_all_Cons del: alloc_all.simps)
qed

lemma alloc_all_map: "map (objs (snd (alloc_all vs h))) (fst (alloc_all vs h)) = vs"
proof (induction vs arbitrary: h)
  case Nil
  then show ?case by simp
next
  case (Cons v vs)
  let ?h1 = "snd (alloc v h)"
  have "objs (snd (alloc_all vs ?h1)) (next_ref h) = objs ?h1 (next_ref h)"
    by (rule alloc_all_old) simp
  then have 3: "objs (snd (alloc_all vs ?h1)) (next_ref h) = v" by simp
  show ?case by (simp only: alloc_all_Cons list.map 3 Cons.IH)
qed

lemma alloc_all_props:
  assumes "alloc_all vs h = (rs, h')"
  shows "rs = [next_ref h ..< next_ref h + length vs]"
    and "next_ref h' = next_ref h + length vs"
    and "\<forall>a < next_ref h. objs h' a = objs h a"
    and "map (objs h') rs = vs"
  using alloc_all_refs[of vs h] alloc_all_next[of vs h] alloc_all_old[of _ h vs]
    alloc_all_map[of vs h] assms
  by simp_all

lemma assignObj_next [simp]: "next_ref (assignObj f a h) = next_ref h"
  by (simp add: assignObj_def)

lemma forEachObj_next [simp]: "next_ref (forEachObj rs f h) = next_ref h"
  unfolding forEachObj_def by (induction rs arbitrary: h) simp_all

lemma forEachObj_other: "a \<notin> set rs \<Longrightarrow> objs (forEachObj rs f h) a = objs h a"
  unfolding forEachObj_def by (induction rs arbitrary: h) (simp_all add: assignObj_def)

lemma forEachObj_map:
  "distinct rs \<Longrightarrow> map (objs (forEachObj rs f h)) rs = map f (map (objs h) rs)"
proof (induction rs arbitrary: h)
  case Nil
  then show ?case by simp
next
  case (Cons r rs)
  have 1: "forEachObj (r # rs) f h = forEachObj rs f (assignObj f r h)"
    by (simp add: forEachObj_def)
  have 2: "objs (forEachObj rs f (assignObj f r h)) r = f (objs h r)"
    using Cons.prems by (simp add: forEachObj_other assignObj_def)
  have 3: "map (objs (assignObj f r h)) rs = map (objs h) rs"
    using Cons.prems by (auto simp: assignObj_def)
  from Cons.IH[of "assignObj f r h"] Cons.prems
  show ?case by (simp add: 1 2 3)
qed

lemma map_filter_objs: "map g (filter (\<lambda>r. P (g r)) rs) = filter P (map g rs)"
  by (induction rs) simp_all

lemma view_fields [simp]:
  "apiData (view st h) = map (objs h) (apiData st)"
  "filteredData (view st h) = map (objs h) (filteredData st)"
  "languages (view st h) = languages st"
  "editors (view st h) = editors st"
  "teams (view st h) = teams st"
  "timeFrame (view st h) = timeFrame st"
  "hideWeekends (view st h) = hideWeekends st"
  by (simp_all add: view_def)

lemma aggregated_store:
  assumes "aggregatedDataByTimeFrame_store E st hide h = (data, h1)"
  shows "(\<forall>a < next_ref h. objs h1 a = objs h a)"
    and "distinct data"
    and "\<forall>r \<in> set data. next_ref h \<le> r"
    and "map (objs h1) data = aggregatedDataByTimeFrame E (view st h) hide"
proof -
  obtain items0 h0 where a: "alloc_all (map (objs h) (apiData st)) h = (items0, h0)"
    by (cases "alloc_all (map (objs h) (apiData st)) h") auto
  from alloc_all_props[OF a] have p0:
    "items0 = [next_ref h ..< next_ref h + length (apiData st)]"
    "next_ref h0 = next_ref h + length (apiData st)"
    "\<forall>a < next_ref h. objs h0 a = objs h a"
    "map (objs h0) items0 = map (objs h) (apiData st)"
    by simp_all
  let ?items = "if hide then filter (\<lambda>r. notWeekend E (objs h0 r)) items0 else items0"
  have d: "distinct ?items" using p0(1) by simp
  have lo: "\<forall>r \<in> set ?items. next_ref h \<le> r \<and> r < next_ref h0" using p0(1,2) by auto
  have v: "map (objs h0) ?items
         = (if hide then filter (notWeekend E) (map (objs h) (apiData st)) else map (objs h) (apiData st))"
    using p0(4) by (simp add: map_filter_objs)
  have all: "(\<forall>a < next_ref h. objs h1 a = objs h a) \<and> distinct data
      \<and> (\<forall>r \<in> set data. next_ref h \<le> r)
      \<and> map (objs h1) data = aggregatedDataByTimeFrame E (view st h) hide"
  proof (cases "timeFrame st = daily")
    case True
    from assms a True have e: "data = ?items" "h1 = forEachObj ?items (setDisplay E) h0"
      by (auto simp: aggregatedDataByTimeFrame_store_def Let_def split: if_splits)
    have 1: "\<forall>a < next_ref h. objs h1 a = objs h a"
    proof (intro allI impI)
      fix a assume "a < next_ref h"
      have "next_ref h \<le> a" if "a \<in> set ?items" using lo that by blast
      with \<open>a < next_ref h\<close> have "a \<notin> set ?items" by (meson not_le)
      then show "objs h1 a = objs h a"
        using p0(3) \<open>a < next_ref h\<close> by (simp add: e(2) forEachObj_other)
    qed
    have 2: "distinct data" using d e by simp
    have 3: "\<forall>r \<in> set data. next_ref h \<le> r" using lo e by simp
    have "map (objs h1) data = map (setDisplay E) (map (objs h0) ?items)"
      unfolding e using d by (rule forEachObj_map)
    then have 4: "map (objs h1) data = aggregatedDataByTimeFrame E (view st h) hide"
      using True by (simp only: v) (simp add: aggregatedDataByTimeFrame_def Let_def)
    from 1 2 3 4 show ?thesis by blast
  next
    case False
    let ?rows = "groupByTimeFrame E (groupItems (timeFrame st) (map (objs h0) ?items))"
    from assms a False have e: "alloc_all ?rows h0 = (data, h1)"
      by (auto simp: aggregatedDataByTimeFrame_store_def Let_def split: if_splits)
    from alloc_all_props[OF e] have p1:
      "data = [next_ref h0 ..< next_ref h0 + length ?rows]"
      "\<forall>a < next_ref h0. objs h1 a = objs h0 a"
      "map (objs h1) data = ?rows"
      by simp_all
    have 1: "\<forall>a < next_ref h. objs h1 a = objs h a" using p1(2) p0(2,3) by simp
    have 2: "distinct data" using p1(1) by simp
    have 3: "\<forall>r \<in> set data. next_ref h \<le> r" using p1(1) p0(2) by auto
    have 4: "map (objs h1) data = aggregatedDataByTimeFrame E (view st h) hide"
      using False by (simp only: p1(3) v) (simp add: aggregatedDataByTimeFrame_def Let_def)
    from 1 2 3 4 show ?thesis by blast
  qed
  from all show "(\<forall>a < next_ref h. objs h1 a = objs h a)"
    and "distinct data"
    and "\<forall>r \<in> set data. next_ref h \<le> r"
    and "map (objs h1) data = aggregatedDataByTimeFrame E (view st h) hide"
    by blast+
qed


lemma forEachObj_map_if:
  "distinct rs \<Longrightarrow>
     map (objs (if c then forEachObj rs f h else h)) rs
       = (if c then map f (map (objs h) rs) else map (objs h) rs)"
  by (simp add: forEachObj_map)

lemma applyFilters_store_props:
  assumes "applyFilters_store E st h = (st', h')"
  shows "\<forall>a < next_ref h. objs h' a = objs h a"
    and "next_ref h \<le> next_ref h'"
    and "st' = st\<lparr>filteredData := filteredData st'\<rparr>"
    and "map (objs h') (filteredData st') = filteredData (applyFilters E (view st h))"
proof -
  obtain data h1 where a: "aggregatedDataByTimeFrame_store E st (hideWeekends st) h = (data, h1)"
    by (cases "aggregatedDataByTimeFrame_store E st (hideWeekends st) h") auto
  note p = aggregated_store[OF a]
  let ?sl = "filter isSelected (languages st)"
  let ?se = "filter isSelected (editors st)"
  define h2 where "h2 = (if length ?sl \<noteq> 0 then forEachObj data (keepLanguages ?sl) h1 else h1)"
  define h3 where "h3 = (if length ?se \<noteq> 0 then forEachObj data (keepEditors ?se) h2 else h2)"
  from assms a have e: "st' = st\<lparr>filteredData := filter (\<lambda>r. hasBreakdown (objs h3 r)) data\<rparr>"
    "h' = h3"
    by (auto simp: applyFilters_store_def Let_def h2_def h3_def)
  have out: "a \<notin> set data" if "a < next_ref h" for a
    using p(3) that by (meson not_le)
  have f2: "objs h2 a = objs h a" if "a < next_ref h" for a
    using p(1) out[OF that] that by (simp add: h2_def forEachObj_other)
  have f3: "objs h3 a = objs h a" if "a < next_ref h" for a
    using f2[OF that] out[OF that] by (simp add: h3_def forEachObj_other)
  show "\<forall>a < next_ref h. objs h' a = objs h a"
    using f3 by (simp add: e(2))
  have n1: "next_ref h \<le> next_ref h1"
    using a
    by (auto simp: aggregatedDataByTimeFrame_store_def Let_def split: prod.splits if_splits
        dest!: alloc_all_props(2))
  have "next_ref h3 = next_ref h1" by (simp add: h3_def h2_def)
  then show "next_ref h \<le> next_ref h'" using n1 by (simp add: e(2))
  show "st' = st\<lparr>filteredData := filteredData st'\<rparr>" by (simp add: e(1))
  let ?d0 = "aggregatedDataByTimeFrame E (view st h) (hideWeekends st)"
  let ?d1 = "if length ?sl \<noteq> 0 then map (keepLanguages ?sl) ?d0 else ?d0"
  let ?d2 = "if length ?se \<noteq> 0 then map (keepEditors ?se) ?d1 else ?d1"
  have v2: "map (objs h2) data = ?d1"
    unfolding h2_def by (simp only: forEachObj_map_if[OF p(2)] p(4))
  have v3: "map (objs h3) data = ?d2"
    unfolding h3_def by (simp only: forEachObj_map_if[OF p(2)] v2)
  have "map (objs h') (filteredData st') = filter hasBreakdown (map (objs h3) data)"
    by (simp add: e map_filter_objs)
  also have "\<dots> = filter hasBreakdown ?d2" by (simp only: v3)
  also have "\<dots> = filteredData (applyFilters E (view st h))"
    by (simp add: applyFilters_def Let_def)
  finally show "map (objs h') (filteredData st') = filteredData (applyFilters E (view st h))" .
qed

lemma allocated_frame:
  assumes "allocated st h" and "\<forall>a < next_ref h. objs h' a = objs h a"
  shows "map (objs h') (apiData st) = map (objs h) (apiData st)"
  using assms by (simp add: allocated_def list_all_iff)

lemma applyFilters_store_refines:
  assumes al: "allocated st h"
  shows "apiDataUnchanged st h (applyFilters_store E st h)"
    and "viewOf (applyFilters_store E st h) = applyFilters E (view st h)"
proof -
  obtain st' h' where r: "applyFilters_store E st h = (st', h')"
    by (cases "applyFilters_store E st h") auto
  note p = applyFilters_store_props[OF r]
  have api: "apiData st' = apiData st" by (subst p(3)) simp
  have m: "map (objs h') (apiData st) = map (objs h) (apiData st)"
    by (rule allocated_frame[OF al p(1)])
  have al': "allocated st' h'"
    using al p(2) by (auto simp: allocated_def list_all_iff api)
  show "apiDataUnchanged st h (applyFilters_store E st h)"
    by (simp add: r apiDataUnchanged_def api m al')
  have "view st' h' = (view st h)\<lparr>filteredData := map (objs h') (filteredData st')\<rparr>"
    by (subst p(3)) (simp add: view_def m)
  also have "\<dots> = applyFilters E (view st h)"
    by (subst applyFilters_eq[of E "view st h"]) (simp add: p(4))
  finally show "viewOf (applyFilters_store E st h) = applyFilters E (view st h)"
    by (simp add: viewOf_def r)
qed


lemma applyFilters_store_step:
  assumes "allocated st h" and "apiData st2 = apiData st"
  shows "apiDataUnchanged st h (applyFilters_store E st2 h)"
    and "viewOf (applyFilters_store E st2 h) = applyFilters E (view st2 h)"
proof -
  have al: "allocated st2 h" using assms by (simp add: allocated_def)
  from applyFilters_store_refines(1)[OF al, of E] assms(2)
  show "apiDataUnchanged st h (applyFilters_store E st2 h)"
    by (simp add: apiDataUnchanged_def)
  show "viewOf (applyFilters_store E st2 h) = applyFilters E (view st2 h)"
    by (rule applyFilters_store_refines(2)[OF al])
qed

lemma apiDataUnchanged_refl: "allocated st h \<Longrightarrow> apiDataUnchanged st h (st, h)"
  by (simp add: apiDataUnchanged_def)

lemma view_updates:
  "view (st\<lparr>languages := x\<rparr>) h = (view st h)\<lparr>languages := x\<rparr>"
  "view (st\<lparr>editors := x\<rparr>) h = (view st h)\<lparr>editors := x\<rparr>"
  "view (st\<lparr>teams := x\<rparr>) h = (view st h)\<lparr>teams := x\<rparr>"
  "view (st\<lparr>hideWeekends := b\<rparr>) h = (view st h)\<lparr>hideWeekends := b\<rparr>"
  "view (st\<lparr>timeFrame := tf\<rparr>) h = (view st h)\<lparr>timeFrame := tf\<rparr>"
  "view (st\<lparr>hasPendingTeamChanges := b\<rparr>) h = (view st h)\<lparr>hasPendingTeamChanges := b\<rparr>"
  by (simp_all add: view_def)

lemma filterLanguage_store_ok:
  assumes "allocated st h"
  shows "apiDataUnchanged st h (filterLanguage_store E v st h)
       \<and> viewOf (filterLanguage_store E v st h) = filterLanguage E v (view st h)"
proof (cases "find (\<lambda>i. item_value i = v) (languages st)")
  case None
  then show ?thesis
    using assms by (simp add: filterLanguage_store_def filterLanguage_def apiDataUnchanged_refl viewOf_def)
next
  case (Some x)
  then show ?thesis
    using applyFilters_store_step[OF assms, of "st\<lparr>languages := toggleItem v (languages st)\<rparr>" E]
    by (simp add: filterLanguage_store_def filterLanguage_def view_updates)
qed

lemma filterEditor_store_ok:
  assumes "allocated st h"
  shows "apiDataUnchanged st h (filterEditor_store E v st h)
       \<and> viewOf (filterEditor_store E v st h) = filterEditor E v (view st h)"
proof (cases "find (\<lambda>i. item_value i = v) (editors st)")
  case None
  then show ?thesis
    using assms by (simp add: filterEditor_store_def filterEditor_def apiDataUnchanged_refl viewOf_def)
next
  case (Some x)
  then show ?thesis
    using applyFilters_store_step[OF assms, of "st\<lparr>editors := toggleItem v (editors st)\<rparr>" E]
    by (simp add: filterEditor_store_def filterEditor_def view_updates)
qed

lemma filterTeam_store_ok:
  assumes "allocated st h"
  shows "apiDataUnchanged st h (filterTeam_store E v st h)
       \<and> viewOf (filterTeam_store E v st h) = filterTeam E v (view st h)"
proof (cases "find (\<lambda>i. item_value i = v) (teams st)")
  case None
  then show ?thesis
    using assms by (simp add: filterTeam_store_def filterTeam_def apiDataUnchanged_refl viewOf_def)
next
  case (Some x)
  let ?st2 = "st\<lparr>teams := toggleItem v (teams st)\<rparr>"
  obtain s h' where r: "applyFilters_store E ?st2 h = (s, h')"
    by (cases "applyFilters_store E ?st2 h") auto
  from applyFilters_store_step[OF assms, of ?st2 E] r
  have 1: "apiDataUnchanged st h (s, h')" and 2: "view s h' = applyFilters E (view ?st2 h)"
    by (simp_all add: viewOf_def)
  from 1 have 3: "apiDataUnchanged st h (s\<lparr>hasPendingTeamChanges := True\<rparr>, h')"
    by (auto simp: apiDataUnchanged_def allocated_def)
  show ?thesis
    using Some 2 3 by (simp add: filterTeam_store_def filterTeam_def r viewOf_def view_updates)
qed

lemma other_store_ok:
  assumes "allocated st h"
  shows "apiDataUnchanged st h (toggleWeekendFilter_store E b st h)"
    and "viewOf (toggleWeekendFilter_store E b st h) = toggleWeekendFilter E b (view st h)"
    and "apiDataUnchanged st h (onTimeFrameChange_store E tf st h)"
    and "viewOf (onTimeFrameChange_store E tf st h) = onTimeFrameChange E tf (view st h)"
    and "apiDataUnchanged st h (resetAllFilters_sync_store E st h)"
    and "viewOf (resetAllFilters_sync_store E st h) = resetAllFilters_sync E (view st h)"
proof -
  show "apiDataUnchanged st h (toggleWeekendFilter_store E b st h)"
    and "viewOf (toggleWeekendFilter_store E b st h) = toggleWeekendFilter E b (view st h)"
    using applyFilters_store_step[OF assms, of "st\<lparr>hideWeekends := b\<rparr>" E]
    by (simp_all add: toggleWeekendFilter_store_def toggleWeekendFilter_def view_updates)
  show "apiDataUnchanged st h (onTimeFrameChange_store E tf st h)"
    and "viewOf (onTimeFrameChange_store E tf st h) = onTimeFrameChange E tf (view st h)"
    using applyFilters_store_step[OF assms, of "st\<lparr>timeFrame := tf\<rparr>" E]
    by (simp_all add: onTimeFrameChange_store_def onTimeFrameChange_def view_updates)
  let ?c = "st\<lparr>languages := clearSelected (languages st), editors := clearSelected (editors st),
               teams := clearSelected (teams st), hideWeekends := False,
               hasPendingTeamChanges := False\<rparr>"
  show "apiDataUnchanged st h (resetAllFilters_sync_store E st h)"
    and "viewOf (resetAllFilters_sync_store E st h) = resetAllFilters_sync E (view st h)"
    using applyFilters_store_step[OF assms, of ?c E]
    by (simp_all add: resetAllFilters_sync_store_def resetAllFilters_sync_def view_updates)
qed

text \<open>
  C9. Each local filter operation (\<open>filterLanguage\<close>, \<open>filterEditor\<close>, \<open>filterTeam\<close>,
  \<open>toggleWeekendFilter\<close>, \<open>onTimeFrameChange\<close> and the part of \<open>resetAllFilters\<close> before its
  \<^verbatim>\<open>await\<close>), run on a store in which the references of \<open>apiData\<close> are in use, leaves
  \<open>apiData\<close> with the same references and the objects they point to as they were: the
  operation assigns only to the copies it has built. What the resulting state and store
  stand for is what the operation gives on the records.
\<close>

theorem local_filters_keep_apiData:
  assumes "allocated st h"
  shows "apiDataUnchanged st h (filterLanguage_store E v st h)
       \<and> viewOf (filterLanguage_store E v st h) = filterLanguage E v (view st h)
       \<and> apiDataUnchanged st h (filterEditor_store E v st h)
       \<and> viewOf (filterEditor_store E v st h) = filterEditor E v (view st h)
       \<and> apiDataUnchanged st h (filterTeam_store E v st h)
       \<and> viewOf (filterTeam_store E v st h) = filterTeam E v (view st h)
       \<and> apiDataUnchanged st h (toggleWeekendFilter_store E b st h)
       \<and> viewOf (toggleWeekendFilter_store E b st h) = toggleWeekendFilter E b (view st h)
       \<and> apiDataUnchanged st h (onTimeFrameChange_store E tf st h)
       \<and> viewOf (onTimeFrameChange_store E tf st h) = onTimeFrameChange E tf (view st h)
       \<and> apiDataUnchanged st h (resetAllFilters_sync_store E st h)
       \<and> viewOf (resetAllFilters_sync_store E st h) = resetAllFilters_sync E (view st h)"
  using filterLanguage_store_ok[OF assms] filterEditor_store_ok[OF assms]
    filterTeam_store_ok[OF assms] other_store_ok[OF assms]
  by blast

theorem local_filters_keep_apiData_witness:
  "allocated example_rstate example_store
   \<and> apiData (fst (filterLanguage_store example_dashboard_env ''python'' example_rstate example_store)) = [0, 1]
   \<and> map (objs (snd (filterLanguage_store example_dashboard_env ''python'' example_rstate example_store))) [0, 1]
       = [usage_day1, usage_day2]
   \<and> filteredData (fst (filterLanguage_store example_dashboard_env ''python'' example_rstate example_store)) = [2]
   \<and> day (objs (snd (filterLanguage_store example_dashboard_env ''python'' example_rstate example_store)) 2)
       = ''2024-01-01''"
proof -
  have a: "allocated example_rstate example_store" by code_simp
  have b: "apiData example_rstate = [0, 1]" by code_simp
  have c: "map (objs example_store) [0, 1] = [usage_day1, usage_day2]" by code_simp
  have d: "filteredData (fst (filterLanguage_store example_dashboard_env ''python'' example_rstate example_store)) = [2]"
    by code_simp
  have e: "day (objs (snd (filterLanguage_store example_dashboard_env ''python'' example_rstate example_store)) 2)
       = ''2024-01-01''"
    by code_simp
  from local_filters_keep_apiData[OF a, of example_dashboard_env "''python''"]
  have "apiDataUnchanged example_rstate example_store
          (filterLanguage_store example_dashboard_env ''python'' example_rstate example_store)"
    by blast
  then show ?thesis using a b c d e by (simp add: apiDataUnchanged_def)
qed

end
